theory Spec2Isabelle
  imports Main "HOL-Library.Word" "HOL-Library.Sublist"
begin

section \<open>JavaScript strings\<close>

text \<open>
  A JavaScript string is a sequence of UTF-16 code units; \<open>includes\<close>, \<open>match\<close>,
  \<open>split\<close> and the template literals of the services all work on code units. Order
  notes, status names and customer messages of this application are partly Arabic, so
  code units beyond ASCII occur. The literals of the source that are ASCII are written
  with \<open>js\<close>.
\<close>

type_synonym jsstring = "16 word list"

definition js :: "string \<Rightarrow> jsstring" where
  "js s = map of_char s"

text \<open>
  The character classes of the regular expression in \<open>extractConsignmentId\<close>:
  \<open>\s\<close> is ECMAScript's WhiteSpace and LineTerminator, \<open>\d\<close> is \<open>[0-9]\<close>.
\<close>

definition is_space :: "16 word \<Rightarrow> bool" where
  "is_space c \<longleftrightarrow>
     c \<in> set [0x09, 0x0A, 0x0B, 0x0C, 0x0D, 0x20, 0xA0, 0x1680, 0x2028, 0x2029,
               0x202F, 0x205F, 0x3000, 0xFEFF]
     \<or> (0x2000 \<le> c \<and> c \<le> 0x200A)"

definition is_digit :: "16 word \<Rightarrow> bool" where
  "is_digit c \<longleftrightarrow> 0x30 \<le> c \<and> c \<le> 0x39"

text \<open>\<open>String.prototype.includes\<close> (\<open>includes\<close> is reserved in Isabelle): the pattern
  occurs at some position.\<close>

fun includes_str :: "jsstring \<Rightarrow> jsstring \<Rightarrow> bool" where
  "includes_str [] pat = (pat = [])"
| "includes_str (c # cs) pat = (prefix pat (c # cs) \<or> includes_str cs pat)"

text \<open>The marker \<open>"SHIPSY_ID:"\<close> of the note field.\<close>

definition SHIPSY_ID :: jsstring where
  "SHIPSY_ID = js ''SHIPSY_ID:''"

section \<open>SyncService.extractConsignmentId\<close>

text \<open>
  \<open>note.match(/SHIPSY_ID:\s*(\d+)/)\<close> tries the pattern at every position from the
  left and answers the first position where it matches. \<open>match_here\<close> is the pattern
  anchored at the start of its argument: the literal, then whitespace, then digits.
  Both quantifiers are greedy; a whitespace character is never a digit, so giving
  whitespace back cannot turn a failed match into a successful one, and the greedy
  digit run is the capture group.
\<close>

definition match_here :: "jsstring \<Rightarrow> jsstring option" where
  "match_here s =
     (if prefix SHIPSY_ID s
      then (let ds = takeWhile is_digit (dropWhile is_space (drop (length SHIPSY_ID) s))
            in if ds = [] then None else Some ds)
      else None)"

fun regex_search :: "jsstring \<Rightarrow> jsstring option" where
  "regex_search [] = match_here []"
| "regex_search (c # cs) =
     (case match_here (c # cs) of Some ds \<Rightarrow> Some ds | None \<Rightarrow> regex_search cs)"

text \<open>
  The note of an order is a string or null (\<open>None\<close>). \<open>!note\<close> holds for null,
  undefined and the empty string.
\<close>

definition extractConsignmentId :: "jsstring option \<Rightarrow> jsstring option" where
  "extractConsignmentId note =
     (case note of
        None \<Rightarrow> None
      | Some n \<Rightarrow> if n = [] then None else regex_search n)"


text \<open>
  The sync-state line that \<open>syncOrder\<close> writes, the template literal
  \<open>`SHIPSY_ID: ${consignment.consignmentId}\nCreated: ${new Date().toISOString()}`\<close>.
\<close>

definition sync_note :: "jsstring \<Rightarrow> jsstring \<Rightarrow> jsstring" where
  "sync_note cid created = js ''SHIPSY_ID: '' @ cid @ [0x0A] @ js ''Created: '' @ created"

text \<open>
  The test \<open>order.note && order.note.includes("SHIPSY_ID:")\<close>, as \<open>syncOrder\<close>
  and \<open>getSyncStats\<close> write it.
\<close>

definition note_includes_marker :: "jsstring option \<Rightarrow> bool" where
  "note_includes_marker note =
     (case note of None \<Rightarrow> False | Some n \<Rightarrow> n \<noteq> [] \<and> includes_str n SHIPSY_ID)"

section \<open>Orders, responses and effects\<close>

text \<open>
  The fields of a Shopify order that the services read. A field that may be null or
  missing is an option. The payload keeps the order reference and the items; the other
  fields that \<open>transformOrderToConsignment\<close> copies (addresses, store settings of the
  process environment, the floating-point weight and declared value) are read by no
  branch of the services and are left out.
\<close>

record line_item =
  title :: jsstring
  quantity :: nat

record order =
  order_id :: nat
  order_note :: "jsstring option"
  financial_status :: "jsstring option"
  fulfillment_status :: "jsstring option"
  tags :: "jsstring option"
  order_number :: "nat option"
  line_items :: "line_item list option"

record consignment_payload =
  customer_reference_number :: nat
  items :: "line_item list"

text \<open>What the carrier answers: \<open>response.data\<close> of the two Shipsy calls.\<close>

record consignment_data =
  consignment_id :: "jsstring option"

record status_data =
  current_status :: "jsstring option"

record order_filters =
  f_limit :: "nat option"
  f_status :: "jsstring option"
  f_created_at_min :: "jsstring option"

record order_params =
  p_limit :: nat
  p_status :: jsstring
  p_created_at_min :: "jsstring option"

text \<open>
  Thrown values: the error of a rejected HTTP request (with its message),
  \<open>new Error(msg)\<close>, a TypeError of the runtime.
\<close>

datatype exn = AxiosError jsstring | Error string | TypeError string

datatype 'a promise = Rejected exn | Resolved 'a

datatype level = info | warn | error

text \<open>One line of the sync log file, as \<open>SyncLog.logSync\<close> builds it.\<close>

record log_entry =
  log_timestamp :: jsstring
  log_type :: jsstring
  log_status :: "jsstring option"
  log_orderId :: "nat option"
  log_consignmentId :: "jsstring option"
  log_synced :: nat
  log_failed :: nat
  log_total :: nat
  log_message :: jsstring
  log_error :: "jsstring option"
  log_duration :: nat

record sync_data =
  sd_status :: "jsstring option"
  sd_orderId :: "nat option"
  sd_consignmentId :: "jsstring option"
  sd_synced :: "nat option"
  sd_failed :: "nat option"
  sd_total :: "nat option"
  sd_message :: "jsstring option"
  sd_error :: "jsstring option"
  sd_duration :: "nat option"

text \<open>
  Everything a service does to the outside is an effect, recorded in order: a call of the
  application logger, a request to the carrier, a request to the order source, a line
  appended to the sync log file.
\<close>

datatype effect =
    Log level string
  | ShipsyPostSoftdata consignment_payload
  | ShipsyGetStatus jsstring
  | ShopifyGetOrders order_params
  | ShopifyGetOrder nat
  | ShopifyPutNote nat jsstring
  | ShopifyPutTags nat jsstring
  | ShopifyPutStatus nat "jsstring option"
  | ShopifyPostMessage nat jsstring
  | SyncLogAppend log_entry

type_synonym trace = "effect list"

text \<open>
  The outside world answers each request; its answer may depend on everything that
  happened before (the trace), so that the same request can succeed once and fail later.
\<close>

record world =
  shipsy_post_softdata :: "trace \<Rightarrow> consignment_payload \<Rightarrow> consignment_data option promise"
  shipsy_get_status :: "trace \<Rightarrow> jsstring \<Rightarrow> status_data option promise"
  shopify_get_orders :: "trace \<Rightarrow> order_params \<Rightarrow> order list option promise"
  shopify_get_order :: "trace \<Rightarrow> nat \<Rightarrow> order option promise"
  shopify_write :: "trace \<Rightarrow> effect \<Rightarrow> exn option"
  fs_append_fails :: "trace \<Rightarrow> bool"
  now_iso :: "trace \<Rightarrow> jsstring"

fun is_carrier_call :: "effect \<Rightarrow> bool" where
  "is_carrier_call (ShipsyPostSoftdata _) = True"
| "is_carrier_call (ShipsyGetStatus _) = True"
| "is_carrier_call _ = False"

fun is_order_write :: "effect \<Rightarrow> bool" where
  "is_order_write (ShopifyPutNote _ _) = True"
| "is_order_write (ShopifyPutTags _ _) = True"
| "is_order_write (ShopifyPutStatus _ _) = True"
| "is_order_write (ShopifyPostMessage _ _) = True"
| "is_order_write _ = False"

fun is_sync_log_append :: "effect \<Rightarrow> bool" where
  "is_sync_log_append (SyncLogAppend _) = True"
| "is_sync_log_append _ = False"


section \<open>Logger\<close>

text \<open>
  \<open>Logger.log\<close> spreads the data it is given into the log entry and serialises
  the entry with \<open>JSON.stringify\<close>. Most callers pass a small object of strings and
  numbers (\<open>{orderId, error: error.message}\<close>), which always serialises; such a
  call is the effect \<open>Log\<close> alone. A few callers pass the caught error itself. The
  own enumerable properties of a rejected request's error include the request object,
  whose structure is circular, so \<open>JSON.stringify\<close> throws a TypeError out of the
  logger, and that TypeError replaces the error being handled. An \<open>Error\<close> or
  \<open>TypeError\<close> of the runtime has no enumerable property of its own and is logged
  without harm.
\<close>

definition stringify_throws :: "exn \<Rightarrow> bool" where
  "stringify_throws e = (case e of AxiosError _ \<Rightarrow> True | _ \<Rightarrow> False)"

text \<open>
  \<open>logger.error(message, error); throw error\<close> in a \<open>catch\<close> block: the
  error that leaves the block, and the trace with the call of the logger.
\<close>

definition log_error_raw :: "string \<Rightarrow> exn \<Rightarrow> trace \<Rightarrow> exn \<times> trace" where
  "log_error_raw message e tr =
     (if stringify_throws e then TypeError ''Converting circular structure to JSON'' else e,
      tr @ [Log error message])"

section \<open>ShopifyService\<close>

text \<open>
  Each method sends one request; when the request (or reading its response) throws, the
  method logs an error and throws again. \<open>getAllOrders\<close> fills in the defaults of
  \<open>limit\<close> and \<open>status\<close> and then spreads the filters over them; it is the
  one method here that hands the caught error itself to the logger.
\<close>

definition getAllOrders :: "world \<Rightarrow> order_filters \<Rightarrow> trace \<Rightarrow> (exn + order list option) \<times> trace" where
  "getAllOrders w filters tr =
     (let params = \<lparr>p_limit = (case f_limit filters of None \<Rightarrow> 50 | Some l \<Rightarrow> l),
                     p_status = (case f_status filters of None \<Rightarrow> js ''any'' | Some s \<Rightarrow> s),
                     p_created_at_min = f_created_at_min filters\<rparr>;
          tr1 = tr @ [ShopifyGetOrders params]
      in case shopify_get_orders w tr params of
           Rejected e \<Rightarrow>
             (case log_error_raw ''Failed to get orders'' e tr1 of (e', tr2) \<Rightarrow> (Inl e', tr2))
         | Resolved orders \<Rightarrow> (Inr orders, tr1))"

definition getOrder :: "world \<Rightarrow> nat \<Rightarrow> trace \<Rightarrow> (exn + order option) \<times> trace" where
  "getOrder w orderId tr =
     (let tr1 = tr @ [ShopifyGetOrder orderId]
      in case shopify_get_order w tr orderId of
           Rejected e \<Rightarrow> (Inl e, tr1 @ [Log error ''Failed to get order''])
         | Resolved ord \<Rightarrow> (Inr ord, tr1))"

text \<open>
  \<open>updateOrderNote\<close> puts \<open>{order: {id, note}}\<close>: the text it is given is the whole
  note of the request.
\<close>

definition updateOrderNote :: "world \<Rightarrow> nat \<Rightarrow> jsstring \<Rightarrow> trace \<Rightarrow> (exn + unit) \<times> trace" where
  "updateOrderNote w orderId note tr =
     (let req = ShopifyPutNote orderId note; tr1 = tr @ [req]
      in case shopify_write w tr req of
           Some e \<Rightarrow> (Inl e, tr1 @ [Log error ''Failed to update order note''])
         | None \<Rightarrow> (Inr (), tr1))"

text \<open>\<open>tags.split(", ")\<close> and \<open>tags.join(", ")\<close>.\<close>

fun split_comma_space :: "jsstring \<Rightarrow> jsstring \<Rightarrow> jsstring list" where
  "split_comma_space cur [] = [cur]"
| "split_comma_space cur [a] = [cur @ [a]]"
| "split_comma_space cur (a # b # rest) =
     (if a = 0x2C \<and> b = 0x20 then cur # split_comma_space [] rest
      else split_comma_space (cur @ [a]) (b # rest))"

fun join_comma_space :: "jsstring list \<Rightarrow> jsstring" where
  "join_comma_space [] = []"
| "join_comma_space [t] = t"
| "join_comma_space (t # u # ts) = t @ js '', '' @ join_comma_space (u # ts)"

text \<open>
  \<open>addOrderTag\<close> reads the order again, keeps the tags it has and adds the new one
  when it is not among them.
\<close>

definition addOrderTag :: "world \<Rightarrow> nat \<Rightarrow> jsstring \<Rightarrow> trace \<Rightarrow> (exn + unit) \<times> trace" where
  "addOrderTag w orderId tag tr =
     (case getOrder w orderId tr of
        (Inl e, tr1) \<Rightarrow> (Inl e, tr1 @ [Log error ''Failed to add order tag''])
      | (Inr None, tr1) \<Rightarrow>
          (Inl (TypeError ''Cannot read properties of undefined (reading tags)''),
           tr1 @ [Log error ''Failed to add order tag''])
      | (Inr (Some ord), tr1) \<Rightarrow>
          (let ts = (case tags ord of
                       None \<Rightarrow> []
                     | Some t \<Rightarrow> if t = [] then [] else split_comma_space [] t);
               ts' = (if tag \<in> set ts then ts else ts @ [tag]);
               req = ShopifyPutTags orderId (join_comma_space ts');
               tr2 = tr1 @ [req]
           in case shopify_write w tr1 req of
                Some e \<Rightarrow> (Inl e, tr2 @ [Log error ''Failed to add order tag''])
              | None \<Rightarrow> (Inr (), tr2)))"

text \<open>
  \<open>updateOrderStatus\<close> puts \<open>{order: {id, financial_status}}\<close>; an undefined status
  (\<open>None\<close>) leaves the key out of the body.
\<close>

definition updateOrderStatus :: "world \<Rightarrow> nat \<Rightarrow> jsstring option \<Rightarrow> trace \<Rightarrow> (exn + unit) \<times> trace" where
  "updateOrderStatus w orderId status tr =
     (let req = ShopifyPutStatus orderId status; tr1 = tr @ [req]
      in case shopify_write w tr req of
           Some e \<Rightarrow> (Inl e, tr1 @ [Log error ''Failed to update order status''])
         | None \<Rightarrow> (Inr (), tr1))"

definition sendOrderMessage :: "world \<Rightarrow> nat \<Rightarrow> jsstring \<Rightarrow> trace \<Rightarrow> (exn + unit) \<times> trace" where
  "sendOrderMessage w orderId message tr =
     (let req = ShopifyPostMessage orderId message; tr1 = tr @ [req]
      in case shopify_write w tr req of
           Some e \<Rightarrow> (Inl e, tr1 @ [Log error ''Failed to send order message''])
         | None \<Rightarrow> (Inr (), tr1 @ [Log info ''Order message sent'']))"

section \<open>ShipsyService\<close>

text \<open>
  \<open>transformOrderToConsignment\<close> throws a TypeError when the order has no
  \<open>line_items\<close> (\<open>lineItems.forEach\<close>) or no \<open>order_number\<close>
  (\<open>order.order_number.toString()\<close>).
\<close>

definition transformOrderToConsignment :: "order \<Rightarrow> exn + consignment_payload" where
  "transformOrderToConsignment ord =
     (case line_items ord of
        None \<Rightarrow> Inl (TypeError ''Cannot read properties of undefined (reading forEach)'')
      | Some its \<Rightarrow>
          (case order_number ord of
             None \<Rightarrow> Inl (TypeError ''Cannot read properties of undefined (reading toString)'')
           | Some n \<Rightarrow> Inr \<lparr>customer_reference_number = n, items = its\<rparr>))"

record consignment_result =
  success :: bool
  consignmentId :: jsstring

text \<open>
  The test \<open>response.data && response.data.consignment_id\<close>: the identifier when the
  response has data and a truthy \<open>consignment_id\<close> (a non-empty string).
\<close>

definition response_consignment_id :: "consignment_data option \<Rightarrow> jsstring option" where
  "response_consignment_id data =
     (case data of
        None \<Rightarrow> None
      | Some d \<Rightarrow>
          (case consignment_id d of
             None \<Rightarrow> None
           | Some cid \<Rightarrow> if cid = [] then None else Some cid))"

definition createConsignment :: "world \<Rightarrow> order \<Rightarrow> trace \<Rightarrow> (exn + consignment_result) \<times> trace" where
  "createConsignment w orderData tr =
     (case transformOrderToConsignment orderData of
        Inl e \<Rightarrow> (Inl e, tr @ [Log error ''Failed to create consignment''])
      | Inr payload \<Rightarrow>
          (let tr1 = tr @ [Log info ''Creating consignment in Shipsy''];
               tr2 = tr1 @ [ShipsyPostSoftdata payload]
           in case shipsy_post_softdata w tr1 payload of
                Rejected e \<Rightarrow> (Inl e, tr2 @ [Log error ''Failed to create consignment''])
              | Resolved data \<Rightarrow>
                  (case response_consignment_id data of
                     Some cid \<Rightarrow>
                       (Inr \<lparr>success = True, consignmentId = cid\<rparr>,
                        tr2 @ [Log info ''Consignment created successfully''])
                   | None \<Rightarrow>
                       (Inl (Error ''No consignment ID in response''),
                        tr2 @ [Log error ''Failed to create consignment'']))))"

definition getConsignmentStatus :: "world \<Rightarrow> jsstring \<Rightarrow> trace \<Rightarrow> (exn + status_data option) \<times> trace" where
  "getConsignmentStatus w cid tr =
     (let tr1 = tr @ [ShipsyGetStatus cid]
      in case shipsy_get_status w tr cid of
           Rejected e \<Rightarrow> (Inl e, tr1 @ [Log error ''Failed to get consignment status''])
         | Resolved data \<Rightarrow> (Inr data, tr1))"


section \<open>Settings and constants\<close>

text \<open>
  \<open>settings.shipmentStatuses\<close>, the status mapping table, in the order of the source.
  The display names are Arabic and are given by their code units.
\<close>

record status_mapping =
  name :: jsstring
  shopifyStatus :: jsstring
  notify :: bool

definition shipmentStatuses :: "(jsstring \<times> status_mapping) list" where
  "shipmentStatuses =
     [(js ''pickup_scheduled'',
         \<lparr>name = [0x62C, 0x62F, 0x648, 0x644, 0x20, 0x627, 0x644, 0x627, 0x633, 0x62A, 0x644, 0x627, 0x645],
          shopifyStatus = js ''pending'', notify = True\<rparr>),
      (js ''out_for_pickup'',
         \<lparr>name = [0x62C, 0x627, 0x631, 0x64A, 0x20, 0x627, 0x644, 0x627, 0x633, 0x62A, 0x644, 0x627, 0x645],
          shopifyStatus = js ''processing'', notify = True\<rparr>),
      (js ''reached_at_hub'',
         \<lparr>name = [0x648, 0x635, 0x644, 0x20, 0x627, 0x644, 0x645, 0x631, 0x643, 0x632],
          shopifyStatus = js ''processing'', notify = False\<rparr>),
      (js ''outfordelivery'',
         \<lparr>name = [0x62C, 0x627, 0x631, 0x64A, 0x20, 0x627, 0x644, 0x62A, 0x648, 0x635, 0x64A, 0x644],
          shopifyStatus = js ''processing'', notify = True\<rparr>),
      (js ''attempted'',
         \<lparr>name = [0x645, 0x62D, 0x627, 0x648, 0x644, 0x629, 0x20, 0x62A, 0x648, 0x635, 0x64A, 0x644],
          shopifyStatus = js ''processing'', notify = True\<rparr>),
      (js ''delivered'',
         \<lparr>name = [0x62A, 0x645, 0x20, 0x627, 0x644, 0x62A, 0x633, 0x644, 0x64A, 0x645],
          shopifyStatus = js ''completed'', notify = True\<rparr>),
      (js ''cancelled'',
         \<lparr>name = [0x645, 0x644, 0x63A, 0x649],
          shopifyStatus = js ''cancelled'', notify = True\<rparr>)]"

text \<open>
  The table is an object literal, and \<open>settings.shipmentStatuses[key]\<close> also finds
  what every object inherits from \<open>Object.prototype\<close>: for these keys the lookup
  answers a function (or the prototype itself), which is truthy and has neither
  \<open>shopifyStatus\<close> nor \<open>notify\<close>.
\<close>

definition object_prototype_keys :: "jsstring list" where
  "object_prototype_keys =
     [js ''constructor'', js ''__defineGetter__'', js ''__defineSetter__'',
      js ''hasOwnProperty'', js ''__lookupGetter__'', js ''__lookupSetter__'',
      js ''isPrototypeOf'', js ''propertyIsEnumerable'', js ''toString'', js ''valueOf'',
      js ''__proto__'', js ''toLocaleString'']"

datatype property = OwnEntry status_mapping | Inherited | Undefined

definition shipmentStatuses_get :: "jsstring \<Rightarrow> property" where
  "shipmentStatuses_get key =
     (case map_of shipmentStatuses key of
        Some m \<Rightarrow> OwnEntry m
      | None \<Rightarrow> if key \<in> set object_prototype_keys then Inherited else Undefined)"

text \<open>\<open>constants.SUPPORTED_SHIPMENT_STATUSES\<close>, the statuses the application supports.\<close>

definition SUPPORTED_SHIPMENT_STATUSES :: "jsstring list" where
  "SUPPORTED_SHIPMENT_STATUSES =
     [js ''pickup_scheduled'', js ''out_for_pickup'', js ''reached_at_hub'',
      js ''outfordelivery'', js ''attempted'', js ''delivered'', js ''cancelled'']"

text \<open>
  The status values that the shipment model can describe: the keys of \<open>statusMap\<close> in
  \<open>Shipment.getStatusDescription\<close>. \<open>pending\<close> is the value the model gives a
  shipment for which the carrier reports no status.
\<close>

definition shipment_status_values :: "jsstring list" where
  "shipment_status_values =
     [js ''pickup_scheduled'', js ''out_for_pickup'', js ''reached_at_hub'', js ''in_transit'',
      js ''outfordelivery'', js ''attempted'', js ''delivered'', js ''cancelled'', js ''pending'']"

section \<open>SyncLog\<close>

text \<open>
  \<open>writeLog\<close> appends one JSON line to the sync log file; a failure of the file system
  is caught and only printed on the console. \<open>logSync\<close> builds the entry, with
  \<open>|| 0\<close>, \<open>|| ""\<close> and \<open>|| null\<close> for the fields that are missing.
\<close>

definition writeLog :: "world \<Rightarrow> log_entry \<Rightarrow> trace \<Rightarrow> trace" where
  "writeLog w logEntry tr = (if fs_append_fails w tr then tr else tr @ [SyncLogAppend logEntry])"

definition logSync :: "world \<Rightarrow> sync_data \<Rightarrow> trace \<Rightarrow> log_entry \<times> trace" where
  "logSync w syncData tr =
     (let logEntry =
        \<lparr>log_timestamp = now_iso w tr,
         log_type = js ''sync'',
         log_status = sd_status syncData,
         log_orderId = sd_orderId syncData,
         log_consignmentId =
           (case sd_consignmentId syncData of
              None \<Rightarrow> None | Some c \<Rightarrow> if c = [] then None else Some c),
         log_synced = (case sd_synced syncData of None \<Rightarrow> 0 | Some n \<Rightarrow> n),
         log_failed = (case sd_failed syncData of None \<Rightarrow> 0 | Some n \<Rightarrow> n),
         log_total = (case sd_total syncData of None \<Rightarrow> 0 | Some n \<Rightarrow> n),
         log_message = (case sd_message syncData of None \<Rightarrow> [] | Some m \<Rightarrow> m),
         log_error =
           (case sd_error syncData of
              None \<Rightarrow> None | Some e \<Rightarrow> if e = [] then None else Some e),
         log_duration = (case sd_duration syncData of None \<Rightarrow> 0 | Some n \<Rightarrow> n)\<rparr>
      in (logEntry, writeLog w logEntry tr))"

section \<open>SyncService\<close>

text \<open>
  What \<open>syncOrder\<close> returns: \<open>{success: false, reason: "already_synced"}\<close>,
  \<open>{success: true, orderId, consignmentId}\<close>, or nothing at all when the consignment
  result is not a success (the function then falls off its end).
\<close>

datatype sync_result = AlreadySynced | SyncSuccess nat jsstring | ReturnedUndefined

definition syncOrder :: "world \<Rightarrow> order \<Rightarrow> trace \<Rightarrow> (exn + sync_result) \<times> trace" where
  "syncOrder w ord tr =
     (if note_includes_marker (order_note ord)
      then (Inr AlreadySynced, tr @ [Log info ''Order already synced''])
      else
        (case createConsignment w ord tr of
           (Inl e, tr1) \<Rightarrow> (Inl e, tr1 @ [Log error ''Failed to sync order''])
         | (Inr consignment, tr1) \<Rightarrow>
             if success consignment
             then
               (let note = sync_note (consignmentId consignment) (now_iso w tr1)
                in case updateOrderNote w (order_id ord) note tr1 of
                     (Inl e, tr2) \<Rightarrow> (Inl e, tr2 @ [Log error ''Failed to sync order''])
                   | (Inr _, tr2) \<Rightarrow>
                       (case addOrderTag w (order_id ord) (js ''shipsy-synced'') tr2 of
                          (Inl e, tr3) \<Rightarrow> (Inl e, tr3 @ [Log error ''Failed to sync order''])
                        | (Inr _, tr3) \<Rightarrow>
                            (Inr (SyncSuccess (order_id ord) (consignmentId consignment)),
                             tr3 @ [Log info ''Order synced successfully''])))
             else (Inr ReturnedUndefined, tr1)))"

text \<open>\<open>result.success\<close> in the batch loop; reading it from undefined throws.\<close>

fun result_success :: "sync_result \<Rightarrow> exn + bool" where
  "result_success AlreadySynced = Inr False"
| "result_success (SyncSuccess _ _) = Inr True"
| "result_success ReturnedUndefined =
     Inl (TypeError ''Cannot read properties of undefined (reading success)'')"

record sync_summary =
  synced :: nat
  failed :: nat
  total :: nat

record sync_options =
  limit :: "nat option"
  createdAfter :: "jsstring option"

text \<open>
  The loop of \<open>syncPendingOrders\<close> with its two counters. A refunded or cancelled
  order is passed over; whatever the body throws is caught, logged and counted.
\<close>

fun syncPendingOrders_loop :: "world \<Rightarrow> order list \<Rightarrow> nat \<Rightarrow> nat \<Rightarrow> trace \<Rightarrow> (nat \<times> nat) \<times> trace" where
  "syncPendingOrders_loop w [] syn fl tr = ((syn, fl), tr)"
| "syncPendingOrders_loop w (ord # rest) syn fl tr =
     (if financial_status ord = Some (js ''refunded'')
         \<or> fulfillment_status ord = Some (js ''cancelled'')
      then syncPendingOrders_loop w rest syn fl tr
      else
        (case syncOrder w ord tr of
           (Inl e, tr1) \<Rightarrow>
             syncPendingOrders_loop w rest syn (fl + 1) (tr1 @ [Log error ''Error syncing order''])
         | (Inr result, tr1) \<Rightarrow>
             (case result_success result of
                Inl e \<Rightarrow>
                  syncPendingOrders_loop w rest syn (fl + 1)
                    (tr1 @ [Log error ''Error syncing order''])
              | Inr True \<Rightarrow> syncPendingOrders_loop w rest (syn + 1) fl tr1
              | Inr False \<Rightarrow> syncPendingOrders_loop w rest syn fl tr1)))"

definition sync_filters :: "sync_options \<Rightarrow> order_filters" where
  "sync_filters options =
     \<lparr>f_limit = Some (case limit options of None \<Rightarrow> 50 | Some l \<Rightarrow> if l = 0 then 50 else l),
      f_status = Some (js ''any''),
      f_created_at_min = createdAfter options\<rparr>"

definition syncPendingOrders :: "world \<Rightarrow> sync_options \<Rightarrow> trace \<Rightarrow> (exn + sync_summary) \<times> trace" where
  "syncPendingOrders w options tr =
     (case getAllOrders w (sync_filters options) (tr @ [Log info ''Starting order sync...'']) of
        (Inl e, tr1) \<Rightarrow>
          (case log_error_raw ''Order sync failed'' e tr1 of (e', tr2) \<Rightarrow> (Inl e', tr2))
      | (Inr None, tr1) \<Rightarrow>
          (case log_error_raw ''Order sync failed'' (TypeError ''orders is not iterable'') tr1 of
             (e', tr2) \<Rightarrow> (Inl e', tr2))
      | (Inr (Some orders), tr1) \<Rightarrow>
          (case syncPendingOrders_loop w orders 0 0 tr1 of
             ((syn, fl), tr2) \<Rightarrow>
               (Inr \<lparr>synced = syn, failed = fl, total = length orders\<rparr>,
                tr2 @ [Log info ''Order sync completed''])))"


text \<open>
  \<open>updateOrderFromShipmentStatus\<close>: the key of the lookup is the status converted to
  a property name, so a missing status asks for the key \<open>"undefined"\<close>. A falsy
  lookup is the unknown-status branch: a warning, and nothing else.
\<close>

definition property_key :: "jsstring option \<Rightarrow> jsstring" where
  "property_key v = (case v of None \<Rightarrow> js ''undefined'' | Some s \<Rightarrow> s)"

definition shipment_update_prefix :: jsstring where
  "shipment_update_prefix =
     [0x62A, 0x62D, 0x62F, 0x64A, 0x62B, 0x20, 0x627, 0x644, 0x634, 0x62D, 0x646, 0x629, 0x3A, 0x20]"

text \<open>
  The \<open>try\<close> block of \<open>updateOrderFromShipmentStatus\<close>, for the
  \<open>shopifyStatus\<close> of the lookup (undefined for an inherited member) and for the
  message to send, if \<open>notify\<close> is truthy.
\<close>

definition update_mapped_order :: "world \<Rightarrow> nat \<Rightarrow> jsstring option \<Rightarrow> jsstring option \<Rightarrow> trace \<Rightarrow> (exn + unit) \<times> trace" where
  "update_mapped_order w orderId newStatus message tr =
     (case updateOrderStatus w orderId newStatus tr of
        (Inl e, tr1) \<Rightarrow> (Inl e, tr1 @ [Log error ''Failed to update order status''])
      | (Inr _, tr1) \<Rightarrow>
          (case message of
             None \<Rightarrow> (Inr (), tr1 @ [Log info ''Order status updated''])
           | Some m \<Rightarrow>
               (case sendOrderMessage w orderId m tr1 of
                  (Inl e, tr2) \<Rightarrow> (Inl e, tr2 @ [Log error ''Failed to update order status''])
                | (Inr _, tr2) \<Rightarrow> (Inr (), tr2 @ [Log info ''Order status updated'']))))"

definition updateOrderFromShipmentStatus :: "world \<Rightarrow> nat \<Rightarrow> status_data \<Rightarrow> trace \<Rightarrow> (exn + unit) \<times> trace" where
  "updateOrderFromShipmentStatus w orderId shipmentStatus tr =
     (case shipmentStatuses_get (property_key (current_status shipmentStatus)) of
        Undefined \<Rightarrow> (Inr (), tr @ [Log warn ''Unknown shipment status''])
      | Inherited \<Rightarrow> update_mapped_order w orderId None None tr
      | OwnEntry statusMapping \<Rightarrow>
          update_mapped_order w orderId (Some (shopifyStatus statusMapping))
            (if notify statusMapping then Some (shipment_update_prefix @ name statusMapping)
             else None) tr)"

record update_summary =
  updated :: nat
  update_failed :: nat

text \<open>
  The loop of \<open>updateConsignmentStatuses\<close>: an order without a consignment identifier
  is passed over; \<open>updated\<close> is incremented whenever
  \<open>updateOrderFromShipmentStatus\<close> returns.
\<close>

fun updateConsignmentStatuses_loop :: "world \<Rightarrow> order list \<Rightarrow> nat \<Rightarrow> nat \<Rightarrow> trace \<Rightarrow> (nat \<times> nat) \<times> trace" where
  "updateConsignmentStatuses_loop w [] upd fl tr = ((upd, fl), tr)"
| "updateConsignmentStatuses_loop w (ord # rest) upd fl tr =
     (case extractConsignmentId (order_note ord) of
        None \<Rightarrow> updateConsignmentStatuses_loop w rest upd fl tr
      | Some cid \<Rightarrow>
          if cid = [] then updateConsignmentStatuses_loop w rest upd fl tr
          else
            (case getConsignmentStatus w cid tr of
               (Inl e, tr1) \<Rightarrow>
                 updateConsignmentStatuses_loop w rest upd (fl + 1)
                   (tr1 @ [Log error ''Error updating status''])
             | (Inr None, tr1) \<Rightarrow> updateConsignmentStatuses_loop w rest upd fl tr1
             | (Inr (Some status), tr1) \<Rightarrow>
                 if current_status status = None \<or> current_status status = Some []
                 then updateConsignmentStatuses_loop w rest upd fl tr1
                 else
                   (case updateOrderFromShipmentStatus w (order_id ord) status tr1 of
                      (Inl e, tr2) \<Rightarrow>
                        updateConsignmentStatuses_loop w rest upd (fl + 1)
                          (tr2 @ [Log error ''Error updating status''])
                    | (Inr _, tr2) \<Rightarrow>
                        updateConsignmentStatuses_loop w rest (upd + 1) fl tr2)))"

definition updateConsignmentStatuses :: "world \<Rightarrow> trace \<Rightarrow> (exn + update_summary) \<times> trace" where
  "updateConsignmentStatuses w tr =
     (case getAllOrders w \<lparr>f_limit = Some 100, f_status = None, f_created_at_min = None\<rparr>
             (tr @ [Log info ''Starting consignment status update...'']) of
        (Inl e, tr1) \<Rightarrow>
          (case log_error_raw ''Status update failed'' e tr1 of (e', tr2) \<Rightarrow> (Inl e', tr2))
      | (Inr None, tr1) \<Rightarrow>
          (case log_error_raw ''Status update failed'' (TypeError ''orders is not iterable'') tr1 of
             (e', tr2) \<Rightarrow> (Inl e', tr2))
      | (Inr (Some orders), tr1) \<Rightarrow>
          (case updateConsignmentStatuses_loop w orders 0 0 tr1 of
             ((upd, fl), tr2) \<Rightarrow>
               (Inr \<lparr>updated = upd, update_failed = fl\<rparr>,
                tr2 @ [Log info ''Status update completed''])))"

text \<open>The tally of \<open>getSyncStats\<close> over the fetched orders.\<close>

record sync_stats =
  stats_total :: nat
  stats_synced :: nat
  stats_notSynced :: nat
  stats_pending :: nat
  stats_completed :: nat

definition getSyncStats_tally :: "order list \<Rightarrow> sync_stats" where
  "getSyncStats_tally orders =
     \<lparr>stats_total = length orders,
      stats_synced = length (filter (\<lambda>ord. note_includes_marker (order_note ord)) orders),
      stats_notSynced = length (filter (\<lambda>ord. \<not> note_includes_marker (order_note ord)) orders),
      stats_pending =
        length (filter (\<lambda>ord. fulfillment_status ord = Some (js ''pending'')
                            \<or> fulfillment_status ord = Some (js ''partial'')) orders),
      stats_completed =
        length (filter (\<lambda>ord. fulfillment_status ord = Some (js ''fulfilled'')) orders)\<rparr>"

section \<open>Notions used to state the properties\<close>

text \<open>
  What each order of a batch met, in order: it was passed over, or \<open>syncOrder\<close> was
  called on it (in the trace the batch had reached) and threw or returned.
\<close>

datatype attempt = PassedOver | Threw exn | Returned sync_result

fun sync_attempts :: "world \<Rightarrow> order list \<Rightarrow> trace \<Rightarrow> attempt list" where
  "sync_attempts w [] tr = []"
| "sync_attempts w (ord # rest) tr =
     (if financial_status ord = Some (js ''refunded'')
         \<or> fulfillment_status ord = Some (js ''cancelled'')
      then PassedOver
      else (case fst (syncOrder w ord tr) of Inl e \<Rightarrow> Threw e | Inr r \<Rightarrow> Returned r))
     # sync_attempts w rest (snd (syncPendingOrders_loop w [ord] 0 0 tr))"

fun is_threw :: "attempt \<Rightarrow> bool" where
  "is_threw (Threw _) = True"
| "is_threw _ = False"

fun is_synced :: "attempt \<Rightarrow> bool" where
  "is_synced (Returned (SyncSuccess _ _)) = True"
| "is_synced _ = False"

text \<open>
  The reading of the token that speaks of the first occurrence of the marker: the text
  after the first \<open>SHIPSY_ID:\<close> of the note, and the digit run that follows it after
  optional whitespace.
\<close>

fun after_first_marker :: "jsstring \<Rightarrow> jsstring option" where
  "after_first_marker [] = None"
| "after_first_marker (c # cs) =
     (if prefix SHIPSY_ID (c # cs) then Some (drop (length SHIPSY_ID) (c # cs))
      else after_first_marker cs)"

definition first_marker_digits :: "jsstring \<Rightarrow> jsstring option" where
  "first_marker_digits s =
     map_option (\<lambda>r. takeWhile is_digit (dropWhile is_space r)) (after_first_marker s)"

text \<open>The effects that a run added to the trace it started from.\<close>

definition added :: "trace \<Rightarrow> trace \<Rightarrow> trace" where
  "added tr tr' = drop (length tr) tr'"


section \<open>Sample orders and a sample world\<close>

text \<open>
  Concrete inputs on which the services are run below. In the sample world the carrier
  refuses the order with reference 1002 and creates consignment \<open>123\<close> for every other
  order; it reports every consignment as \<open>in_transit\<close>; every request to the order
  source succeeds.
\<close>

definition sample_order :: "nat \<Rightarrow> jsstring option \<Rightarrow> order" where
  "sample_order n note =
     \<lparr>order_id = n, order_note = note, financial_status = Some (js ''paid''),
      fulfillment_status = None, tags = Some (js ''vip, gift''), order_number = Some n,
      line_items = Some [\<lparr>title = js ''Book'', quantity = 2\<rparr>]\<rparr>"

definition sample_batch :: "order list" where
  "sample_batch =
     [sample_order 1001 (Some (js ''Leave at door'')), sample_order 1002 None,
      sample_order 1003 (Some [])]"

definition sample_world :: world where
  "sample_world =
     \<lparr>shipsy_post_softdata =
        (\<lambda>tr p. if customer_reference_number p = 1002
                then Rejected (AxiosError (js ''Request failed with status code 500''))
                else Resolved (Some \<lparr>consignment_id = Some (js ''123'')\<rparr>)),
      shipsy_get_status = (\<lambda>tr cid. Resolved (Some \<lparr>current_status = Some (js ''in_transit'')\<rparr>)),
      shopify_get_orders = (\<lambda>tr params. Resolved (Some sample_batch)),
      shopify_get_order = (\<lambda>tr n. Resolved (Some (sample_order n None))),
      shopify_write = (\<lambda>tr req. None),
      fs_append_fails = (\<lambda>tr. False),
      now_iso = (\<lambda>tr. js ''2024-05-01T10:00:00.000Z'')\<rparr>"

text \<open>A carrier that answers 200 with a body that has no \<open>consignment_id\<close>.\<close>

definition malformed_world :: world where
  "malformed_world =
     sample_world\<lparr>shipsy_post_softdata := (\<lambda>tr p. Resolved (Some \<lparr>consignment_id = None\<rparr>))\<rparr>"


text \<open>
  A world for reconciliation: the order source holds one order, synced as consignment
  \<open>555\<close>, and the carrier reports the given status for it.
\<close>

definition reconcile_world :: "jsstring \<Rightarrow> world" where
  "reconcile_world status =
     sample_world
       \<lparr>shipsy_get_status := (\<lambda>tr cid. Resolved (Some \<lparr>current_status = Some status\<rparr>)),
        shopify_get_orders :=
          (\<lambda>tr params. Resolved (Some [sample_order 1001 (Some (js ''SHIPSY_ID: 555''))]))\<rparr>"

section \<open>The note token: what the regular expression finds\<close>

lemma SHIPSY_ID_units: "SHIPSY_ID = [83, 72, 73, 80, 83, 89, 95, 73, 68, 58]"
  by (simp add: SHIPSY_ID_def js_def)

lemma length_SHIPSY_ID: "length SHIPSY_ID = 10"
  by (simp add: SHIPSY_ID_units)

lemma space_not_digit: "is_space c \<Longrightarrow> \<not> is_digit c"
  by (auto simp: is_space_def is_digit_def word_le_nat_alt)

lemma S_not_space: "\<not> is_space 83" by (simp add: is_space_def)
lemma S_not_digit: "\<not> is_digit 83" by (simp add: is_digit_def)

lemma match_here_Some_iff:
  "match_here s = Some ds \<longleftrightarrow>
     (\<exists>ws rest. s = SHIPSY_ID @ ws @ ds @ rest \<and> (\<forall>c\<in>set ws. is_space c) \<and> ds \<noteq> []
        \<and> (\<forall>c\<in>set ds. is_digit c) \<and> (rest = [] \<or> \<not> is_digit (hd rest)))"
  (is "?L \<longleftrightarrow> ?R")
proof
  assume L: ?L
  then have p: "prefix SHIPSY_ID s"
    by (auto simp: match_here_def split: if_splits)
  then obtain r where r: "s = SHIPSY_ID @ r"
    by (auto simp: prefix_def)
  define d where "d = dropWhile is_space r"
  from L r have ds: "ds = takeWhile is_digit d" "ds \<noteq> []"
    by (auto simp: match_here_def d_def Let_def split: if_splits)
  have "r = takeWhile is_space r @ ds @ dropWhile is_digit d"
    by (simp add: ds d_def)
  moreover have "\<forall>c\<in>set (takeWhile is_space r). is_space c"
    by (auto dest: set_takeWhileD)
  moreover have "\<forall>c\<in>set ds. is_digit c"
    by (auto simp: ds dest: set_takeWhileD)
  moreover have "dropWhile is_digit d = [] \<or> \<not> is_digit (hd (dropWhile is_digit d))"
    using hd_dropWhile[of is_digit d] by blast
  ultimately show ?R using r ds(2) by blast
next
  assume ?R
  then obtain ws rest where s: "s = SHIPSY_ID @ ws @ ds @ rest"
    and ws: "\<forall>c\<in>set ws. is_space c" and ne: "ds \<noteq> []"
    and dg: "\<forall>c\<in>set ds. is_digit c" and rest: "rest = [] \<or> \<not> is_digit (hd rest)"
    by blast
  from ne obtain x xs where dsx: "ds = x # xs" by (cases ds) auto
  with dg have "is_digit x" by simp
  then have nsx: "\<not> is_space x" using space_not_digit by blast
  have 1: "dropWhile is_space (ws @ ds @ rest) = ds @ rest"
    using ws nsx by (simp add: dropWhile_append dsx)
  have 2: "takeWhile is_digit rest = []"
    using rest by (cases rest) auto
  have 3: "takeWhile is_digit (ds @ rest) = ds"
    using dg 2 by (simp add: takeWhile_append2)
  show ?L using ne by (simp add: match_here_def s 1 3)
qed

lemma regex_search_Some_iff:
  "regex_search s = Some ds \<longleftrightarrow>
     (\<exists>pre suf. s = pre @ suf \<and> match_here suf = Some ds
        \<and> (\<forall>i<length pre. match_here (drop i s) = None))"
proof (induction s)
  case Nil
  then show ?case by (auto simp: match_here_def SHIPSY_ID_units)
next
  case (Cons c cs)
  show ?case
  proof (cases "match_here (c # cs)")
    case (Some e)
    have "(\<exists>pre suf. c # cs = pre @ suf \<and> match_here suf = Some ds
        \<and> (\<forall>i<length pre. match_here (drop i (c # cs)) = None)) \<longleftrightarrow> e = ds"
    proof
      assume "\<exists>pre suf. c # cs = pre @ suf \<and> match_here suf = Some ds
        \<and> (\<forall>i<length pre. match_here (drop i (c # cs)) = None)"
      then obtain pre suf where a: "c # cs = pre @ suf" "match_here suf = Some ds"
        "\<forall>i<length pre. match_here (drop i (c # cs)) = None" by blast
      show "e = ds"
      proof (cases pre)
        case Nil
        with a Some show ?thesis by simp
      next
        case (Cons p ps)
        with a(3) have "match_here (drop 0 (c # cs)) = None" by force
        with Some show ?thesis by simp
      qed
    next
      assume "e = ds"
      with Some have "c # cs = [] @ (c # cs) \<and> match_here (c # cs) = Some ds
        \<and> (\<forall>i<length ([]::jsstring). match_here (drop i (c # cs)) = None)" by simp
      then show "\<exists>pre suf. c # cs = pre @ suf \<and> match_here suf = Some ds
        \<and> (\<forall>i<length pre. match_here (drop i (c # cs)) = None)" by blast
    qed
    with Some show ?thesis by simp
  next
    case None
    have "(\<exists>pre suf. c # cs = pre @ suf \<and> match_here suf = Some ds
        \<and> (\<forall>i<length pre. match_here (drop i (c # cs)) = None)) \<longleftrightarrow>
        (\<exists>pre suf. cs = pre @ suf \<and> match_here suf = Some ds
        \<and> (\<forall>i<length pre. match_here (drop i cs) = None))" (is "?A \<longleftrightarrow> ?B")
    proof
      assume ?A
      then obtain pre suf where a: "c # cs = pre @ suf" "match_here suf = Some ds"
        "\<forall>i<length pre. match_here (drop i (c # cs)) = None" by blast
      show ?B
      proof (cases pre)
        case Nil
        with a None show ?thesis by simp
      next
        case (Cons p ps)
        with a(1) have cs: "cs = ps @ suf" by simp
        have "\<forall>i<length ps. match_here (drop i cs) = None"
        proof (intro allI impI)
          fix i assume "i < length ps"
          then have "Suc i < length pre" using Cons by simp
          with a(3) have "match_here (drop (Suc i) (c # cs)) = None" by blast
          then show "match_here (drop i cs) = None" by simp
        qed
        with cs a(2) show ?thesis by blast
      qed
    next
      assume ?B
      then obtain pre suf where b: "cs = pre @ suf" "match_here suf = Some ds"
        "\<forall>i<length pre. match_here (drop i cs) = None" by blast
      have "\<forall>i<length (c # pre). match_here (drop i (c # cs)) = None"
      proof (intro allI impI)
        fix i assume i: "i < length (c # pre)"
        show "match_here (drop i (c # cs)) = None"
        proof (cases i)
          case 0
          with None show ?thesis by simp
        next
          case (Suc j)
          with i b(3) show ?thesis by simp
        qed
      qed
      moreover have "c # cs = (c # pre) @ suf" using b(1) by simp
      ultimately show ?A using b(2) by blast
    qed
    with None Cons.IH show ?thesis by simp
  qed
qed

lemma regex_search_None_iff:
  "regex_search s = None \<longleftrightarrow> (\<forall>i\<le>length s. match_here (drop i s) = None)"
proof (induction s)
  case Nil
  then show ?case by (simp add: match_here_def SHIPSY_ID_units)
next
  case (Cons c cs)
  show ?case
  proof (cases "match_here (c # cs)")
    case (Some e)
    then have "\<not> (\<forall>i\<le>length (c # cs). match_here (drop i (c # cs)) = None)"
      by (auto intro!: exI[of _ 0])
    with Some show ?thesis by simp
  next
    case None
    have "(\<forall>i\<le>length (c # cs). match_here (drop i (c # cs)) = None)
       \<longleftrightarrow> (\<forall>i\<le>length cs. match_here (drop i cs) = None)" (is "?A \<longleftrightarrow> ?B")
    proof
      assume a: ?A
      show ?B
      proof (intro allI impI)
        fix i assume "i \<le> length cs"
        then have "Suc i \<le> length (c # cs)" by simp
        with a have "match_here (drop (Suc i) (c # cs)) = None" by blast
        then show "match_here (drop i cs) = None" by simp
      qed
    next
      assume b: ?B
      show ?A
      proof (intro allI impI)
        fix i assume i: "i \<le> length (c # cs)"
        show "match_here (drop i (c # cs)) = None"
          using None b i by (cases i) auto
      qed
    qed
    with None Cons.IH show ?thesis by simp
  qed
qed

lemma match_here_no_prefix: "\<not> prefix SHIPSY_ID s \<Longrightarrow> match_here s = None"
  by (simp add: match_here_def)

lemma regex_search_no_marker: "\<not> includes_str s SHIPSY_ID \<Longrightarrow> regex_search s = None"
  by (induction s) (auto simp: match_here_no_prefix SHIPSY_ID_units)

lemma js_marker_space: "js ''SHIPSY_ID: '' = SHIPSY_ID @ [0x20]"
  by (simp add: SHIPSY_ID_def js_def)

lemma space_0x20: "is_space 0x20" by (simp add: is_space_def)
lemma newline_not_digit: "\<not> is_digit 0x0A" by (simp add: is_digit_def)

lemma match_here_token_line:
  assumes "cid \<noteq> []" "\<forall>c\<in>set cid. is_digit c" "rest = [] \<or> \<not> is_digit (hd rest)"
  shows "match_here (js ''SHIPSY_ID: '' @ cid @ rest) = Some cid"
proof -
  have "js ''SHIPSY_ID: '' @ cid @ rest = SHIPSY_ID @ [0x20] @ cid @ rest"
    by (simp add: js_marker_space)
  moreover have "\<forall>c\<in>set [0x20::16 word]. is_space c" by (simp add: space_0x20)
  ultimately show ?thesis
    using assms match_here_Some_iff[of "js ''SHIPSY_ID: '' @ cid @ rest" cid] by blast
qed

lemma regex_search_match_here:
  "match_here s = Some ds \<Longrightarrow> regex_search s = Some ds"
  by (cases s) auto

text \<open>The marker has no border: it cannot begin inside a copy of itself.\<close>

lemma marker_no_overlap:
  assumes "prefix SHIPSY_ID (p @ SHIPSY_ID @ x)" "p \<noteq> []"
  shows "length SHIPSY_ID \<le> length p"
proof (rule ccontr)
  assume "\<not> length SHIPSY_ID \<le> length p"
  then have k: "length p < 10" by (simp add: length_SHIPSY_ID)
  from assms(2) have k0: "0 < length p" by simp
  from assms(1) obtain zs where zs: "p @ SHIPSY_ID @ x = SHIPSY_ID @ zs"
    by (auto simp: prefix_def)
  have nth: "(p @ SHIPSY_ID @ x) ! i = SHIPSY_ID ! i" if "i < 10" for i
    using that by (simp only: zs) (simp add: nth_append length_SHIPSY_ID)
  have "(p @ SHIPSY_ID @ x) ! (length p) = 83"
    by (simp add: nth_append SHIPSY_ID_units)
  with nth[OF k] have "SHIPSY_ID ! (length p) = 83" by simp
  with k k0 have k4: "length p = 4"
    by (auto simp: SHIPSY_ID_units nth_Cons' split: if_splits)
  then have "(p @ SHIPSY_ID @ x) ! 5 = 72"
    by (simp add: nth_append SHIPSY_ID_units)
  moreover have "SHIPSY_ID ! 5 = 89" by (simp add: SHIPSY_ID_units)
  ultimately show False using nth[of 5] by simp
qed

lemma match_here_before_marker:
  assumes "match_here p = None" "p \<noteq> []"
  shows "match_here (p @ SHIPSY_ID @ x) = None"
proof (cases "prefix SHIPSY_ID (p @ SHIPSY_ID @ x)")
  case False
  then show ?thesis by (simp add: match_here_no_prefix)
next
  case True
  from marker_no_overlap[OF True assms(2)] have len: "length SHIPSY_ID \<le> length p" .
  with True have "prefix SHIPSY_ID p"
    by (metis prefix_length_prefix prefixI)
  then obtain r where r: "p = SHIPSY_ID @ r" by (auto simp: prefix_def)
  define L where "L = SHIPSY_ID @ x"
  have Lhd: "L = 83 # tl L" by (simp add: L_def SHIPSY_ID_units)
  from assms(1) r have none: "takeWhile is_digit (dropWhile is_space r) = []"
    by (auto simp: match_here_def Let_def split: if_splits)
  have "takeWhile is_digit (dropWhile is_space (r @ L)) = []"
  proof (cases "\<forall>c\<in>set r. is_space c")
    case True
    then have "dropWhile is_space (r @ L) = dropWhile is_space L"
      by (simp add: dropWhile_append)
    also have "\<dots> = L" using Lhd S_not_space by (metis dropWhile.simps(2))
    finally show ?thesis using Lhd S_not_digit by (metis takeWhile.simps(2))
  next
    case False
    then have d: "dropWhile is_space (r @ L) = dropWhile is_space r @ L"
      by (auto simp: dropWhile_append)
    from False have "dropWhile is_space r \<noteq> []" by auto
    then obtain y ys where y: "dropWhile is_space r = y # ys"
      by (cases "dropWhile is_space r") auto
    with none have "\<not> is_digit y" by (auto split: if_splits)
    with y d show ?thesis by simp
  qed
  then show ?thesis using True by (simp add: match_here_def r L_def)
qed

lemma regex_search_before_marker:
  "regex_search p = None \<Longrightarrow> regex_search (p @ SHIPSY_ID @ x) = regex_search (SHIPSY_ID @ x)"
proof (induction p)
  case Nil
  then show ?case by simp
next
  case (Cons c cs)
  from Cons.prems have m: "match_here (c # cs) = None" and s: "regex_search cs = None"
    by (auto split: option.splits)
  from match_here_before_marker[OF m] have "match_here ((c # cs) @ SHIPSY_ID @ x) = None" by simp
  with Cons.IH[OF s] show ?case by simp
qed

lemma extractConsignmentId_eq_search: "extractConsignmentId (Some n) = regex_search n"
  by (cases n) (simp_all add: extractConsignmentId_def match_here_def SHIPSY_ID_units)

lemma extract_None_iff_no_token:
  "extractConsignmentId (Some n) = None \<longleftrightarrow>
     \<not> (\<exists>pre ws d rest. n = pre @ SHIPSY_ID @ ws @ d # rest
            \<and> (\<forall>c\<in>set ws. is_space c) \<and> is_digit d)"
proof
  assume none: "extractConsignmentId (Some n) = None"
  show "\<not> (\<exists>pre ws d rest. n = pre @ SHIPSY_ID @ ws @ d # rest
            \<and> (\<forall>c\<in>set ws. is_space c) \<and> is_digit d)"
  proof
    assume "\<exists>pre ws d rest. n = pre @ SHIPSY_ID @ ws @ d # rest
            \<and> (\<forall>c\<in>set ws. is_space c) \<and> is_digit d"
    then obtain pre ws d rest where n: "n = pre @ SHIPSY_ID @ ws @ d # rest"
      and ws: "\<forall>c\<in>set ws. is_space c" and d: "is_digit d" by blast
    define ds where "ds = d # takeWhile is_digit rest"
    define r where "r = dropWhile is_digit rest"
    have "SHIPSY_ID @ ws @ d # rest = SHIPSY_ID @ ws @ ds @ r"
      by (simp add: ds_def r_def)
    moreover have "ds \<noteq> []" by (simp add: ds_def)
    moreover have "\<forall>c\<in>set ds. is_digit c"
      using d by (auto simp: ds_def dest: set_takeWhileD)
    moreover have "r = [] \<or> \<not> is_digit (hd r)"
      using hd_dropWhile[of is_digit rest] by (auto simp: r_def)
    ultimately have m: "match_here (SHIPSY_ID @ ws @ d # rest) = Some ds"
      using ws match_here_Some_iff[of "SHIPSY_ID @ ws @ d # rest" ds] by blast
    from none have "\<forall>i\<le>length n. match_here (drop i n) = None"
      by (simp only: extractConsignmentId_eq_search regex_search_None_iff)
    moreover have "length pre \<le> length n" by (simp add: n)
    ultimately have "match_here (drop (length pre) n) = None" by blast
    with m show False by (simp add: n)
  qed
next
  assume no: "\<not> (\<exists>pre ws d rest. n = pre @ SHIPSY_ID @ ws @ d # rest
            \<and> (\<forall>c\<in>set ws. is_space c) \<and> is_digit d)"
  show "extractConsignmentId (Some n) = None"
  proof (rule ccontr)
    assume "extractConsignmentId (Some n) \<noteq> None"
    then obtain ds where "regex_search n = Some ds"
      by (auto simp: extractConsignmentId_eq_search)
    then obtain pre suf where n: "n = pre @ suf" and m: "match_here suf = Some ds"
      using regex_search_Some_iff[of n ds] by blast
    from m obtain ws rest where suf: "suf = SHIPSY_ID @ ws @ ds @ rest"
      and ws: "\<forall>c\<in>set ws. is_space c" and ne: "ds \<noteq> []"
      and dg: "\<forall>c\<in>set ds. is_digit c"
      using match_here_Some_iff[of suf ds] by blast
    from ne obtain d dt where ds: "ds = d # dt" by (cases ds) auto
    with dg have "is_digit d" by simp
    moreover have "n = pre @ SHIPSY_ID @ ws @ d # (dt @ rest)"
      by (simp add: n suf ds)
    ultimately show False using no ws by blast
  qed
qed

text \<open>
  C6. Round trip of the note token. For a consignment identifier made of digits (an
  identifier is never empty: \<open>createConsignment\<close> refuses an empty one), the
  sync-state line that \<open>syncOrder\<close> writes is read back by \<open>extractConsignmentId\<close>
  as that identifier. A null note and an empty note give null, and a note gives null
  exactly when it holds no token, that is, when at no position the marker is followed,
  after optional whitespace, by a digit; a note in which the marker does not occur at
  all is one such note. And when text in which no token is found comes before a line
  \<open>SHIPSY_ID: <digits>\<close>, and whatever follows the digits does not continue them,
  the identifier of that line is found.
\<close>

theorem note_token_round_trip:
  "(cid \<noteq> [] \<and> (\<forall>c\<in>set cid. is_digit c)
      \<longrightarrow> extractConsignmentId (Some (sync_note cid created)) = Some cid)
   \<and> extractConsignmentId None = None
   \<and> extractConsignmentId (Some []) = None
   \<and> (extractConsignmentId (Some n) = None \<longleftrightarrow>
        \<not> (\<exists>pre ws d rest. n = pre @ SHIPSY_ID @ ws @ d # rest
               \<and> (\<forall>c\<in>set ws. is_space c) \<and> is_digit d))
   \<and> (\<not> includes_str n SHIPSY_ID \<longrightarrow> extractConsignmentId (Some n) = None)
   \<and> (cid \<noteq> [] \<and> (\<forall>c\<in>set cid. is_digit c) \<and> extractConsignmentId (Some before) = None
        \<and> (after = [] \<or> \<not> is_digit (hd after))
      \<longrightarrow> extractConsignmentId (Some (before @ js ''SHIPSY_ID: '' @ cid @ after)) = Some cid)"
proof (intro conjI impI)
  assume a: "cid \<noteq> [] \<and> (\<forall>c\<in>set cid. is_digit c)"
  have "match_here (js ''SHIPSY_ID: '' @ cid @ ([0x0A] @ js ''Created: '' @ created)) = Some cid"
    using a by (intro match_here_token_line) (simp_all add: newline_not_digit)
  then have "regex_search (sync_note cid created) = Some cid"
    by (simp add: sync_note_def regex_search_match_here)
  then show "extractConsignmentId (Some (sync_note cid created)) = Some cid"
    by (simp add: extractConsignmentId_eq_search)
next
  show "extractConsignmentId None = None" by (simp add: extractConsignmentId_def)
next
  show "extractConsignmentId (Some []) = None" by (simp add: extractConsignmentId_def)
next
  show "extractConsignmentId (Some n) = None \<longleftrightarrow>
        \<not> (\<exists>pre ws d rest. n = pre @ SHIPSY_ID @ ws @ d # rest
               \<and> (\<forall>c\<in>set ws. is_space c) \<and> is_digit d)"
    by (rule extract_None_iff_no_token)
next
  assume "\<not> includes_str n SHIPSY_ID"
  then show "extractConsignmentId (Some n) = None"
    by (simp add: extractConsignmentId_eq_search regex_search_no_marker)
next
  assume a: "cid \<noteq> [] \<and> (\<forall>c\<in>set cid. is_digit c) \<and> extractConsignmentId (Some before) = None
        \<and> (after = [] \<or> \<not> is_digit (hd after))"
  then have m: "match_here (js ''SHIPSY_ID: '' @ cid @ after) = Some cid"
    by (intro match_here_token_line) simp_all
  from a have "regex_search before = None"
    by (simp add: extractConsignmentId_eq_search)
  then have "regex_search (before @ SHIPSY_ID @ ([0x20] @ cid @ after))
      = regex_search (SHIPSY_ID @ ([0x20] @ cid @ after))"
    by (rule regex_search_before_marker)
  then have "regex_search (before @ js ''SHIPSY_ID: '' @ cid @ after) = Some cid"
    using regex_search_match_here[OF m] by (simp add: js_marker_space)
  then show "extractConsignmentId (Some (before @ js ''SHIPSY_ID: '' @ cid @ after)) = Some cid"
    by (simp add: extractConsignmentId_eq_search)
qed

theorem note_token_round_trip_witness:
  "extractConsignmentId (Some (sync_note (js ''123'') (js ''2024-05-01T10:00:00.000Z''))) = Some (js ''123'')
   \<and> extractConsignmentId (Some (js ''Leave at door'')) = None
   \<and> extractConsignmentId (Some (js ''SHIPSY_ID: pending'')) = None
   \<and> extractConsignmentId
        (Some ((js ''Leave at door'' @ [0x0A]) @ js ''SHIPSY_ID: '' @ js ''123'' @ ([0x0A] @ js ''thanks'')))
      = Some (js ''123'')"
  using note_token_round_trip[of "js ''123''" "js ''2024-05-01T10:00:00.000Z''" "js ''Leave at door''"
      "js ''Leave at door'' @ [0x0A]" "[0x0A] @ js ''thanks''"]
    note_token_round_trip[of "js ''123''" "js ''2024-05-01T10:00:00.000Z''" "js ''SHIPSY_ID: pending''"
      "js ''Leave at door'' @ [0x0A]" "[0x0A] @ js ''thanks''"]
  by (simp add: js_def SHIPSY_ID_def is_digit_def is_space_def extractConsignmentId_def match_here_def)

text \<open>
  C10, as the claim words it, fails: in the note \<open>SHIPSY_ID: abc SHIPSY_ID: 42\<close> no
  digits follow the first occurrence of the marker, yet \<open>extractConsignmentId\<close>
  answers \<open>42\<close>, the digits after the second occurrence.
\<close>

theorem extractConsignmentId_first_occurrence_counterexample:
  "extractConsignmentId (Some (js ''SHIPSY_ID: abc SHIPSY_ID: 42'')) = Some (js ''42'')
   \<and> first_marker_digits (js ''SHIPSY_ID: abc SHIPSY_ID: 42'') = Some []"
  by (simp add: extractConsignmentId_def first_marker_digits_def match_here_def js_def
      SHIPSY_ID_def is_space_def is_digit_def)

text \<open>
  C10, amended. On a note that is a string or null, \<open>extractConsignmentId\<close> returns
  null or a non-empty string of decimal digits, never the empty string; null and empty
  notes give null. The digits are the maximal digit run that follows, after optional
  whitespace, the first occurrence of \<open>SHIPSY_ID:\<close> that is followed (after optional
  whitespace) by at least one digit: at no earlier position of the note does the
  pattern match. It returns null exactly when the pattern matches at no position.
\<close>

theorem extractConsignmentId_result:
  "extractConsignmentId None = None
   \<and> extractConsignmentId (Some []) = None
   \<and> (extractConsignmentId (Some n) = None \<longleftrightarrow> (\<forall>i\<le>length n. match_here (drop i n) = None))
   \<and> (extractConsignmentId (Some n) = Some ds \<longrightarrow>
        ds \<noteq> [] \<and> (\<forall>c\<in>set ds. is_digit c)
        \<and> (\<exists>pre ws rest. n = pre @ SHIPSY_ID @ ws @ ds @ rest
              \<and> (\<forall>c\<in>set ws. is_space c)
              \<and> (rest = [] \<or> \<not> is_digit (hd rest))
              \<and> (\<forall>i<length pre. match_here (drop i n) = None)))"
proof (intro conjI impI)
  show "extractConsignmentId None = None" by (simp add: extractConsignmentId_def)
  show "extractConsignmentId (Some []) = None" by (simp add: extractConsignmentId_def)
  show "extractConsignmentId (Some n) = None \<longleftrightarrow> (\<forall>i\<le>length n. match_here (drop i n) = None)"
    by (simp only: extractConsignmentId_eq_search regex_search_None_iff)
next
  assume "extractConsignmentId (Some n) = Some ds"
  then have "regex_search n = Some ds" by (simp add: extractConsignmentId_eq_search)
  then obtain pre suf where n: "n = pre @ suf" and m: "match_here suf = Some ds"
    and early: "\<forall>i<length pre. match_here (drop i n) = None"
    using regex_search_Some_iff[of n ds] by blast
  from m obtain ws rest where suf: "suf = SHIPSY_ID @ ws @ ds @ rest"
    and ws: "\<forall>c\<in>set ws. is_space c" and ne: "ds \<noteq> []"
    and dg: "\<forall>c\<in>set ds. is_digit c" and rest: "rest = [] \<or> \<not> is_digit (hd rest)"
    using match_here_Some_iff[of suf ds] by blast
  show "ds \<noteq> []" by (rule ne)
  show "\<forall>c\<in>set ds. is_digit c" by (rule dg)
  show "\<exists>pre ws rest. n = pre @ SHIPSY_ID @ ws @ ds @ rest
              \<and> (\<forall>c\<in>set ws. is_space c)
              \<and> (rest = [] \<or> \<not> is_digit (hd rest))
              \<and> (\<forall>i<length pre. match_here (drop i n) = None)"
    using n suf ws rest early by blast
qed

theorem extractConsignmentId_result_witness:
  "extractConsignmentId (Some (js ''SHIPSY_ID: abc SHIPSY_ID: 42'')) = Some (js ''42'')
   \<and> js ''42'' \<noteq> []
   \<and> (\<exists>pre ws rest. js ''SHIPSY_ID: abc SHIPSY_ID: 42'' = pre @ SHIPSY_ID @ ws @ js ''42'' @ rest
         \<and> (\<forall>i<length pre. match_here (drop i (js ''SHIPSY_ID: abc SHIPSY_ID: 42'')) = None))"
proof -
  have e: "extractConsignmentId (Some (js ''SHIPSY_ID: abc SHIPSY_ID: 42'')) = Some (js ''42'')"
    by (simp add: extractConsignmentId_def match_here_def js_def SHIPSY_ID_def is_space_def
        is_digit_def)
  from extractConsignmentId_result[of "js ''SHIPSY_ID: abc SHIPSY_ID: 42''" "js ''42''"] e
  show ?thesis by blast
qed


section \<open>syncOrder and createConsignment\<close>

lemma marker_not_in_Nil: "\<not> includes_str [] SHIPSY_ID"
  by (simp add: SHIPSY_ID_units)

text \<open>
  C5. Idempotency. For every order whose note contains the marker \<open>SHIPSY_ID:\<close>,
  in every world and after every history, \<open>syncOrder\<close> returns
  \<open>{success: false, reason: "already_synced"}\<close>; all it does is log one line: it
  sends no request to the carrier and writes nothing to the order source.
\<close>

theorem syncOrder_already_synced:
  assumes "order_note ord = Some n" and "includes_str n SHIPSY_ID"
  shows "syncOrder w ord tr = (Inr AlreadySynced, tr @ [Log info ''Order already synced''])
    \<and> filter is_carrier_call (added tr (snd (syncOrder w ord tr))) = []
    \<and> filter is_order_write (added tr (snd (syncOrder w ord tr))) = []"
proof -
  from assms(2) have "n \<noteq> []" using marker_not_in_Nil by auto
  with assms have "note_includes_marker (order_note ord)"
    by (simp add: note_includes_marker_def)
  then have "syncOrder w ord tr = (Inr AlreadySynced, tr @ [Log info ''Order already synced''])"
    by (simp add: syncOrder_def)
  then show ?thesis by (simp add: added_def)
qed

theorem syncOrder_already_synced_witness:
  "syncOrder sample_world (sample_order 1001 (Some (sync_note (js ''123'') (js ''2024-05-01T10:00:00.000Z'')))) []
     = (Inr AlreadySynced, [Log info ''Order already synced''])"
proof -
  have 1: "order_note (sample_order 1001 (Some (sync_note (js ''123'') (js ''2024-05-01T10:00:00.000Z''))))
     = Some (sync_note (js ''123'') (js ''2024-05-01T10:00:00.000Z''))"
    by (simp add: sample_order_def)
  have 2: "includes_str (sync_note (js ''123'') (js ''2024-05-01T10:00:00.000Z'')) SHIPSY_ID"
    by (simp add: sync_note_def js_def SHIPSY_ID_def)
  from syncOrder_already_synced[OF 1 2, of sample_world "[]"] show ?thesis by simp
qed

text \<open>
  C8. Malformed response. When the carrier call resolves (no transport error) and the
  response has no body, no \<open>consignment_id\<close> or an empty one,
  \<open>createConsignment\<close> throws \<open>Error("No consignment ID in response")\<close>.
  When it returns, the result is a success that carries the non-empty
  \<open>consignment_id\<close> of the response.
\<close>

theorem createConsignment_requires_id:
  "(transformOrderToConsignment ord = Inr payload
      \<and> shipsy_post_softdata w (tr @ [Log info ''Creating consignment in Shipsy'']) payload = Resolved data
      \<and> (data = None \<or> (\<exists>d. data = Some d \<and> (consignment_id d = None \<or> consignment_id d = Some [])))
     \<longrightarrow> fst (createConsignment w ord tr) = Inl (Error ''No consignment ID in response''))
   \<and> (fst (createConsignment w ord tr) = Inr r
     \<longrightarrow> success r \<and> consignmentId r \<noteq> []
         \<and> (\<exists>payload d. transformOrderToConsignment ord = Inr payload
               \<and> shipsy_post_softdata w (tr @ [Log info ''Creating consignment in Shipsy'']) payload
                   = Resolved (Some d)
               \<and> consignment_id d = Some (consignmentId r)))"
proof (intro conjI impI)
  assume a: "transformOrderToConsignment ord = Inr payload
      \<and> shipsy_post_softdata w (tr @ [Log info ''Creating consignment in Shipsy'']) payload = Resolved data
      \<and> (data = None \<or> (\<exists>d. data = Some d \<and> (consignment_id d = None \<or> consignment_id d = Some [])))"
  then have "response_consignment_id data = None"
    by (auto simp: response_consignment_id_def)
  with a show "fst (createConsignment w ord tr) = Inl (Error ''No consignment ID in response'')"
    by (simp add: createConsignment_def Let_def)
next
  assume b: "fst (createConsignment w ord tr) = Inr r"
  then obtain payload where p: "transformOrderToConsignment ord = Inr payload"
    by (cases "transformOrderToConsignment ord") (auto simp: createConsignment_def)
  define t1 where "t1 = tr @ [Log info ''Creating consignment in Shipsy'']"
  from b p obtain data where d: "shipsy_post_softdata w t1 payload = Resolved data"
    by (cases "shipsy_post_softdata w t1 payload") (auto simp: createConsignment_def Let_def t1_def)
  from b p d obtain cid where c: "response_consignment_id data = Some cid"
    and r: "r = \<lparr>success = True, consignmentId = cid\<rparr>"
    by (cases "response_consignment_id data") (auto simp: createConsignment_def Let_def t1_def)
  from c obtain dd where dd: "data = Some dd" "consignment_id dd = Some cid" "cid \<noteq> []"
    by (auto simp: response_consignment_id_def split: option.splits if_splits)
  show "success r" "consignmentId r \<noteq> []" using r dd by simp_all
  show "\<exists>payload d. transformOrderToConsignment ord = Inr payload
               \<and> shipsy_post_softdata w (tr @ [Log info ''Creating consignment in Shipsy'']) payload
                   = Resolved (Some d)
               \<and> consignment_id d = Some (consignmentId r)"
    using p d dd r by (auto simp: t1_def)
qed

theorem createConsignment_requires_id_witness:
  "fst (createConsignment malformed_world (sample_order 1001 None) [])
     = Inl (Error ''No consignment ID in response'')
   \<and> fst (createConsignment sample_world (sample_order 1001 None) [])
     = Inr \<lparr>success = True, consignmentId = js ''123''\<rparr>
   \<and> success \<lparr>success = True, consignmentId = js ''123''\<rparr>"
  using createConsignment_requires_id[of "sample_order 1001 None"
      "\<lparr>customer_reference_number = 1001, items = [\<lparr>title = js ''Book'', quantity = 2\<rparr>]\<rparr>"
      malformed_world "[]" "Some \<lparr>consignment_id = None\<rparr>"]
    createConsignment_requires_id[of "sample_order 1001 None" _ sample_world "[]" _
      "\<lparr>success = True, consignmentId = js ''123''\<rparr>"]
  by (simp add: createConsignment_def transformOrderToConsignment_def response_consignment_id_def
      malformed_world_def sample_world_def sample_order_def js_def)

section \<open>The batch loop\<close>

lemma createConsignment_success:
  "createConsignment w ord tr = (Inr c, tr') \<Longrightarrow> success c"
  by (auto simp: createConsignment_def Let_def split: sum.splits promise.splits option.splits)

lemma syncOrder_never_undefined: "fst (syncOrder w ord tr) \<noteq> Inr ReturnedUndefined"
proof (cases "note_includes_marker (order_note ord)")
  case True
  then show ?thesis by (simp add: syncOrder_def)
next
  case False
  obtain r tr1 where c: "createConsignment w ord tr = (r, tr1)"
    by (cases "createConsignment w ord tr")
  show ?thesis
  proof (cases r)
    case (Inl e)
    with False c show ?thesis by (simp add: syncOrder_def)
  next
    case (Inr cg)
    with c have "success cg" using createConsignment_success by blast
    with False c Inr show ?thesis
      by (auto simp: syncOrder_def Let_def split: prod.splits sum.splits)
  qed
qed

lemma syncPendingOrders_loop_counts:
  "syncPendingOrders_loop w os syn fl tr = ((syn', fl'), tr')
   \<Longrightarrow> syn' = syn + length (filter is_synced (sync_attempts w os tr))
     \<and> fl' = fl + length (filter is_threw (sync_attempts w os tr))"
proof (induction os arbitrary: syn fl tr)
  case Nil
  then show ?case by simp
next
  case (Cons ord rest)
  show ?case
  proof (cases "financial_status ord = Some (js ''refunded'')
         \<or> fulfillment_status ord = Some (js ''cancelled'')")
    case True
    with Cons.prems have "syncPendingOrders_loop w rest syn fl tr = ((syn', fl'), tr')"
      by simp
    from Cons.IH[OF this] True show ?thesis by simp
  next
    case False
    obtain r tr1 where so: "syncOrder w ord tr = (r, tr1)"
      by (cases "syncOrder w ord tr")
    show ?thesis
    proof (cases r)
      case (Inl e)
      with False so Cons.prems
      have "syncPendingOrders_loop w rest syn (fl + 1) (tr1 @ [Log error ''Error syncing order''])
          = ((syn', fl'), tr')" by simp
      from Cons.IH[OF this] False so Inl show ?thesis by simp
    next
      case (Inr res)
      from syncOrder_never_undefined[of w ord tr] so Inr have nu: "res \<noteq> ReturnedUndefined"
        by simp
      show ?thesis
      proof (cases res)
        case AlreadySynced
        with False so Inr Cons.prems
        have "syncPendingOrders_loop w rest syn fl tr1 = ((syn', fl'), tr')" by simp
        from Cons.IH[OF this] False so Inr AlreadySynced show ?thesis by simp
      next
        case (SyncSuccess oid cid)
        with False so Inr Cons.prems
        have "syncPendingOrders_loop w rest (syn + 1) fl tr1 = ((syn', fl'), tr')" by simp
        from Cons.IH[OF this] False so Inr SyncSuccess show ?thesis by simp
      next
        case ReturnedUndefined
        with nu show ?thesis by simp
      qed
    qed
  qed
qed

lemma length_sync_attempts: "length (sync_attempts w os tr) = length os"
  by (induction os arbitrary: tr) simp_all

lemma synced_or_threw_partition:
  "\<forall>a\<in>set atts. is_synced a \<or> is_threw a
   \<Longrightarrow> length (filter is_synced atts) + length (filter is_threw atts) = length atts"
proof (induction atts)
  case Nil
  then show ?case by simp
next
  case (Cons a atts)
  then have ih: "length (filter is_synced atts) + length (filter is_threw atts) = length atts"
    by simp
  from Cons.prems have "is_synced a \<or> is_threw a" by simp
  moreover have "\<not> (is_synced a \<and> is_threw a)"
    by (cases a) auto
  ultimately show ?case using ih by auto
qed

text \<open>
  C7. Batch isolation. Once the page of orders is fetched, \<open>syncPendingOrders\<close>
  returns a summary (it does not throw) whatever the single orders do: every order is
  visited, \<open>synced\<close> is the number of orders on which \<open>syncOrder\<close> returned
  a success, \<open>failed\<close> is the number on which it threw, and \<open>total\<close> is
  the number of orders fetched. When \<open>syncOrder\<close> throws on some of the orders
  and succeeds on all the others, the two counts add up to the total.
\<close>

theorem syncPendingOrders_batch_isolation:
  assumes "getAllOrders w (sync_filters options) (tr @ [Log info ''Starting order sync...''])
             = (Inr (Some orders), tr1)"
  shows "(\<exists>tr'. syncPendingOrders w options tr =
            (Inr \<lparr>synced = length (filter is_synced (sync_attempts w orders tr1)),
                  failed = length (filter is_threw (sync_attempts w orders tr1)),
                  total = length orders\<rparr>, tr'))
    \<and> length (sync_attempts w orders tr1) = length orders
    \<and> ((\<forall>a\<in>set (sync_attempts w orders tr1). is_synced a \<or> is_threw a)
         \<longrightarrow> length (filter is_synced (sync_attempts w orders tr1))
             + length (filter is_threw (sync_attempts w orders tr1)) = length orders)"
proof (intro conjI impI)
  obtain syn fl tr2 where l: "syncPendingOrders_loop w orders 0 0 tr1 = ((syn, fl), tr2)"
    by (cases "syncPendingOrders_loop w orders 0 0 tr1") auto
  from syncPendingOrders_loop_counts[OF l]
  have "syn = length (filter is_synced (sync_attempts w orders tr1))"
    and "fl = length (filter is_threw (sync_attempts w orders tr1))" by simp_all
  with assms l show "\<exists>tr'. syncPendingOrders w options tr =
            (Inr \<lparr>synced = length (filter is_synced (sync_attempts w orders tr1)),
                  failed = length (filter is_threw (sync_attempts w orders tr1)),
                  total = length orders\<rparr>, tr')"
    by (simp add: syncPendingOrders_def)
next
  show "length (sync_attempts w orders tr1) = length orders"
    by (rule length_sync_attempts)
next
  assume "\<forall>a\<in>set (sync_attempts w orders tr1). is_synced a \<or> is_threw a"
  from synced_or_threw_partition[OF this]
  show "length (filter is_synced (sync_attempts w orders tr1))
             + length (filter is_threw (sync_attempts w orders tr1)) = length orders"
    by (simp add: length_sync_attempts)
qed

lemmas eval_defs = syncOrder_def createConsignment_def transformOrderToConsignment_def
  response_consignment_id_def updateOrderNote_def addOrderTag_def getOrder_def
  note_includes_marker_def getAllOrders_def sync_filters_def sync_note_def
  sample_world_def sample_order_def sample_batch_def js_def SHIPSY_ID_def

theorem syncPendingOrders_batch_isolation_witness:
  "fst (syncPendingOrders sample_world \<lparr>limit = None, createdAfter = None\<rparr> [])
     = Inr \<lparr>synced = 2, failed = 1, total = 3\<rparr>
   \<and> map is_threw (sync_attempts sample_world sample_batch
        [Log info ''Starting order sync...'',
         ShopifyGetOrders \<lparr>p_limit = 50, p_status = js ''any'', p_created_at_min = None\<rparr>])
     = [False, True, False]"
proof -
  have g: "getAllOrders sample_world (sync_filters \<lparr>limit = None, createdAfter = None\<rparr>)
             ([] @ [Log info ''Starting order sync...''])
         = (Inr (Some sample_batch),
            [Log info ''Starting order sync...'',
             ShopifyGetOrders \<lparr>p_limit = 50, p_status = js ''any'', p_created_at_min = None\<rparr>])"
    by (simp add: getAllOrders_def sync_filters_def sample_world_def)
  have a: "sync_attempts sample_world sample_batch
        [Log info ''Starting order sync...'',
         ShopifyGetOrders \<lparr>p_limit = 50, p_status = js ''any'', p_created_at_min = None\<rparr>]
     = [Returned (SyncSuccess 1001 (js ''123'')),
        Threw (AxiosError (js ''Request failed with status code 500'')),
        Returned (SyncSuccess 1003 (js ''123''))]"
    by (simp add: eval_defs)
  from syncPendingOrders_batch_isolation[OF g] a show ?thesis
    by auto
qed

section \<open>Status reconciliation\<close>

lemma updateConsignmentStatuses_loop_step:
  "updateConsignmentStatuses_loop w (ord # rest) upd fl tr =
     (case updateConsignmentStatuses_loop w [ord] 0 0 tr of
        ((a, b), t) \<Rightarrow> updateConsignmentStatuses_loop w rest (upd + a) (fl + b) t)"
  by (simp split: option.splits prod.splits sum.splits)

lemma updateConsignmentStatuses_loop_acc:
  "updateConsignmentStatuses_loop w os upd fl tr =
     (case updateConsignmentStatuses_loop w os 0 0 tr of
        ((u, f), tr') \<Rightarrow> ((upd + u, fl + f), tr'))"
proof (induction os arbitrary: upd fl tr)
  case Nil
  then show ?case by simp
next
  case (Cons ord rest)
  obtain a b t where s: "updateConsignmentStatuses_loop w [ord] 0 0 tr = ((a, b), t)"
    by (cases "updateConsignmentStatuses_loop w [ord] 0 0 tr") auto
  obtain u f tr' where r: "updateConsignmentStatuses_loop w rest 0 0 t = ((u, f), tr')"
    by (cases "updateConsignmentStatuses_loop w rest 0 0 t") auto
  have e1: "updateConsignmentStatuses_loop w (ord # rest) upd fl tr
      = updateConsignmentStatuses_loop w rest (upd + a) (fl + b) t"
    by (simp only: updateConsignmentStatuses_loop_step[of w ord rest upd fl tr] s prod.case)
  have e2: "updateConsignmentStatuses_loop w (ord # rest) 0 0 tr
      = updateConsignmentStatuses_loop w rest (0 + a) (0 + b) t"
    by (simp only: updateConsignmentStatuses_loop_step[of w ord rest 0 0 tr] s prod.case)
  have e3: "updateConsignmentStatuses_loop w rest (upd + a) (fl + b) t = ((upd + a + u, fl + b + f), tr')"
    by (simp only: Cons.IH[of "upd + a" "fl + b" t] r prod.case)
  have e4: "updateConsignmentStatuses_loop w rest (0 + a) (0 + b) t = ((0 + a + u, 0 + b + f), tr')"
    by (simp only: Cons.IH[of "0 + a" "0 + b" t] r prod.case)
  show ?case by (simp only: e1 e2 e3 e4 prod.case) simp
qed

lemma extracted_id_nonempty: "extractConsignmentId nt = Some cid \<Longrightarrow> cid \<noteq> []"
proof -
  assume a: "extractConsignmentId nt = Some cid"
  then obtain n where "nt = Some n" by (cases nt) (auto simp: extractConsignmentId_def)
  with a have "regex_search n = Some cid" by (simp add: extractConsignmentId_eq_search)
  then obtain suf where "match_here suf = Some cid"
    using regex_search_Some_iff[of n cid] by blast
  then show ?thesis using match_here_Some_iff[of suf cid] by blast
qed

lemma updateConsignmentStatuses_loop_append:
  "updateConsignmentStatuses_loop w (pre @ os) upd fl tr =
     (case updateConsignmentStatuses_loop w pre upd fl tr of
        ((u, f), t) \<Rightarrow> updateConsignmentStatuses_loop w os u f t)"
proof (induction pre arbitrary: upd fl tr)
  case Nil
  then show ?case by simp
next
  case (Cons p ps)
  obtain a b t where s: "updateConsignmentStatuses_loop w [p] 0 0 tr = ((a, b), t)"
    by (cases "updateConsignmentStatuses_loop w [p] 0 0 tr") auto
  have e1: "updateConsignmentStatuses_loop w ((p # ps) @ os) upd fl tr
      = updateConsignmentStatuses_loop w (ps @ os) (upd + a) (fl + b) t"
    using updateConsignmentStatuses_loop_step[of w p "ps @ os" upd fl tr] s by simp
  have e2: "updateConsignmentStatuses_loop w (p # ps) upd fl tr
      = updateConsignmentStatuses_loop w ps (upd + a) (fl + b) t"
    using updateConsignmentStatuses_loop_step[of w p ps upd fl tr] s by simp
  show ?case by (simp only: e1 e2 Cons.IH)
qed

text \<open>
  C9, amended. Take a run of \<open>updateConsignmentStatuses\<close> and any order of the
  fetched page whose note holds a consignment identifier and for which the carrier
  reports a non-empty status that the lookup in the status table does not find (it is
  no key of the table and no name that every object inherits). For that order the run
  asks the carrier and logs the unknown-status warning, and that is all: it writes
  nothing to the order source (no status update, no customer message). The order is not
  counted as failed, and it is counted in the returned \<open>updated\<close> tally: the
  summary is what the orders before it and after it add, plus one \<open>updated\<close>.
\<close>

theorem unmapped_status_counted_as_updated:
  assumes "getAllOrders w \<lparr>f_limit = Some 100, f_status = None, f_created_at_min = None\<rparr>
             (tr @ [Log info ''Starting consignment status update...''])
           = (Inr (Some (pre @ ord # rest)), tr1)"
    and "updateConsignmentStatuses_loop w pre 0 0 tr1 = ((u1, f1), t1)"
    and "extractConsignmentId (order_note ord) = Some cid"
    and "shipsy_get_status w t1 cid = Resolved (Some st)"
    and "current_status st = Some s" and "s \<noteq> []"
    and "map_of shipmentStatuses s = None" and "s \<notin> set object_prototype_keys"
    and "updateConsignmentStatuses_loop w rest 0 0
           (t1 @ [ShipsyGetStatus cid, Log warn ''Unknown shipment status'']) = ((u2, f2), t2)"
  shows "updateConsignmentStatuses w tr
           = (Inr \<lparr>updated = u1 + 1 + u2, update_failed = f1 + f2\<rparr>,
              t2 @ [Log info ''Status update completed''])
    \<and> updateConsignmentStatuses_loop w (pre @ [ord]) 0 0 tr1
           = ((u1 + 1, f1), t1 @ [ShipsyGetStatus cid, Log warn ''Unknown shipment status''])
    \<and> filter is_order_write
          (added t1 (t1 @ [ShipsyGetStatus cid, Log warn ''Unknown shipment status''])) = []"
proof -
  define t' where "t' = t1 @ [ShipsyGetStatus cid, Log warn ''Unknown shipment status'']"
  from assms(3) have ne: "cid \<noteq> []" by (rule extracted_id_nonempty)
  have un: "shipmentStatuses_get s = Undefined"
    using assms(7,8) by (simp add: shipmentStatuses_get_def)
  have u: "updateOrderFromShipmentStatus w (order_id ord) st (t1 @ [ShipsyGetStatus cid])
      = (Inr (), t')"
    using assms(5) un by (simp add: updateOrderFromShipmentStatus_def property_key_def t'_def)
  have step: "updateConsignmentStatuses_loop w (ord # os) upd fl t1
           = updateConsignmentStatuses_loop w os (upd + 1) fl t'" for os upd fl
    using assms(3,4,5,6) ne u by (simp add: getConsignmentStatus_def)
  have one: "updateConsignmentStatuses_loop w (pre @ [ord]) 0 0 tr1 = ((u1 + 1, f1), t')"
    using updateConsignmentStatuses_loop_append[of w pre "[ord]" 0 0 tr1] assms(2)
      step[of "[]" u1 f1] by simp
  have "updateConsignmentStatuses_loop w (pre @ ord # rest) 0 0 tr1
      = updateConsignmentStatuses_loop w rest (u1 + 1) f1 t'"
    using updateConsignmentStatuses_loop_append[of w pre "ord # rest" 0 0 tr1] assms(2)
      step[of rest u1 f1] by simp
  also have "\<dots> = ((u1 + 1 + u2, f1 + f2), t2)"
    using updateConsignmentStatuses_loop_acc[of w rest "u1 + 1" f1 t'] assms(9)
    by (simp add: t'_def)
  finally have all: "updateConsignmentStatuses_loop w (pre @ ord # rest) 0 0 tr1
      = ((u1 + 1 + u2, f1 + f2), t2)" .
  have run: "updateConsignmentStatuses w tr
           = (Inr \<lparr>updated = u1 + 1 + u2, update_failed = f1 + f2\<rparr>,
              t2 @ [Log info ''Status update completed''])"
    using assms(1) all by (simp add: updateConsignmentStatuses_def)
  show ?thesis using run one by (simp add: t'_def added_def)
qed

lemmas reconcile_defs = updateConsignmentStatuses_def getAllOrders_def getConsignmentStatus_def
  updateOrderFromShipmentStatus_def update_mapped_order_def updateOrderStatus_def
  sendOrderMessage_def property_key_def shipmentStatuses_get_def shipmentStatuses_def
  object_prototype_keys_def reconcile_world_def sample_world_def sample_order_def
  extractConsignmentId_def match_here_def is_space_def is_digit_def js_def SHIPSY_ID_def

theorem unmapped_status_counted_as_updated_witness:
  "updateConsignmentStatuses (reconcile_world (js ''in_transit'')) []
   = (Inr \<lparr>updated = 1, update_failed = 0\<rparr>,
      [Log info ''Starting consignment status update...'',
       ShopifyGetOrders \<lparr>p_limit = 100, p_status = js ''any'', p_created_at_min = None\<rparr>,
       ShipsyGetStatus (js ''555''), Log warn ''Unknown shipment status'',
       Log info ''Status update completed''])"
proof -
  define w where "w = reconcile_world (js ''in_transit'')"
  define tr1 where "tr1 = [Log info ''Starting consignment status update...'',
       ShopifyGetOrders \<lparr>p_limit = 100, p_status = js ''any'', p_created_at_min = None\<rparr>]"
  have g: "getAllOrders w \<lparr>f_limit = Some 100, f_status = None, f_created_at_min = None\<rparr>
             ([] @ [Log info ''Starting consignment status update...''])
        = (Inr (Some ([] @ sample_order 1001 (Some (js ''SHIPSY_ID: 555'')) # [])), tr1)"
    by (simp add: getAllOrders_def w_def tr1_def reconcile_world_def sample_world_def)
  have l1: "updateConsignmentStatuses_loop w [] 0 0 tr1 = ((0, 0), tr1)" by simp
  have e: "extractConsignmentId (order_note (sample_order 1001 (Some (js ''SHIPSY_ID: 555''))))
      = Some (js ''555'')"
    by (simp add: sample_order_def extractConsignmentId_def match_here_def js_def SHIPSY_ID_def
        is_space_def is_digit_def)
  have q: "shipsy_get_status w tr1 (js ''555'')
      = Resolved (Some \<lparr>current_status = Some (js ''in_transit'')\<rparr>)"
    by (simp add: w_def reconcile_world_def sample_world_def)
  have c: "current_status \<lparr>current_status = Some (js ''in_transit'')\<rparr> = Some (js ''in_transit'')"
    by simp
  have ne: "js ''in_transit'' \<noteq> []" by (simp add: js_def)
  have m: "map_of shipmentStatuses (js ''in_transit'') = None"
    by (simp add: shipmentStatuses_def js_def)
  have p: "js ''in_transit'' \<notin> set object_prototype_keys"
    by (simp add: object_prototype_keys_def js_def)
  have l2: "updateConsignmentStatuses_loop w [] 0 0
           (tr1 @ [ShipsyGetStatus (js ''555''), Log warn ''Unknown shipment status''])
        = ((0, 0), tr1 @ [ShipsyGetStatus (js ''555''), Log warn ''Unknown shipment status''])"
    by simp
  from unmapped_status_counted_as_updated[OF g l1 e q c ne m p l2] show ?thesis
    by (simp add: w_def tr1_def)
qed

text \<open>
  C9, as the claim words it, fails. The status \<open>constructor\<close> has no entry in the
  status table, yet the lookup finds the member that every object inherits, and the run
  puts a status update (with no status) to the order source for that order. And the
  empty status has no entry either, yet the order is passed over and not counted in
  \<open>updated\<close>.
\<close>

theorem unmapped_status_write_counterexample:
  "map_of shipmentStatuses (js ''constructor'') = None
   \<and> updateConsignmentStatuses (reconcile_world (js ''constructor'')) []
     = (Inr \<lparr>updated = 1, update_failed = 0\<rparr>,
        [Log info ''Starting consignment status update...'',
         ShopifyGetOrders \<lparr>p_limit = 100, p_status = js ''any'', p_created_at_min = None\<rparr>,
         ShipsyGetStatus (js ''555''), ShopifyPutStatus 1001 None,
         Log info ''Order status updated'', Log info ''Status update completed''])
   \<and> is_order_write (ShopifyPutStatus 1001 None)
   \<and> map_of shipmentStatuses [] = None
   \<and> updateConsignmentStatuses (reconcile_world []) []
     = (Inr \<lparr>updated = 0, update_failed = 0\<rparr>,
        [Log info ''Starting consignment status update...'',
         ShopifyGetOrders \<lparr>p_limit = 100, p_status = js ''any'', p_created_at_min = None\<rparr>,
         ShipsyGetStatus (js ''555''), Log info ''Status update completed''])"
  by (simp add: reconcile_defs)

section \<open>The status mapping table\<close>

lemma mapped_status_is_written:
  assumes "shipmentStatuses_get s = OwnEntry m"
  shows "\<exists>es. snd (updateOrderFromShipmentStatus w oid \<lparr>current_status = Some s\<rparr> tr)
              = tr @ ShopifyPutStatus oid (Some (shopifyStatus m)) # es
            \<and> Log warn ''Unknown shipment status'' \<notin> set es"
  using assms
  by (auto simp: updateOrderFromShipmentStatus_def update_mapped_order_def updateOrderStatus_def
      sendOrderMessage_def property_key_def Let_def split: option.splits)

lemma supported_status_lookup:
  "s \<in> set SUPPORTED_SHIPMENT_STATUSES \<Longrightarrow> \<exists>m. shipmentStatuses_get s = OwnEntry m"
  by (auto simp: SUPPORTED_SHIPMENT_STATUSES_def shipmentStatuses_get_def shipmentStatuses_def js_def)

text \<open>
  C1, amended. The keys of the status mapping table are exactly the supported shipment
  statuses of the constants (pickup_scheduled, out_for_pickup, reached_at_hub,
  outfordelivery, attempted, delivered, cancelled). For each of them the lookup finds an
  entry, and reconciliation given that status writes the mapped status to the order
  source and never logs the unknown-status warning.
\<close>

theorem supported_statuses_are_mapped:
  "map fst shipmentStatuses = SUPPORTED_SHIPMENT_STATUSES
   \<and> (\<forall>s\<in>set SUPPORTED_SHIPMENT_STATUSES.
        \<exists>m es. shipmentStatuses_get s = OwnEntry m
          \<and> snd (updateOrderFromShipmentStatus w oid \<lparr>current_status = Some s\<rparr> tr)
              = tr @ ShopifyPutStatus oid (Some (shopifyStatus m)) # es
          \<and> Log warn ''Unknown shipment status'' \<notin> set es)"
proof (intro conjI ballI)
  show "map fst shipmentStatuses = SUPPORTED_SHIPMENT_STATUSES"
    by (simp add: shipmentStatuses_def SUPPORTED_SHIPMENT_STATUSES_def)
next
  fix s assume "s \<in> set SUPPORTED_SHIPMENT_STATUSES"
  then obtain m where m: "shipmentStatuses_get s = OwnEntry m"
    using supported_status_lookup by blast
  from mapped_status_is_written[OF m, of w oid tr] m
  show "\<exists>m es. shipmentStatuses_get s = OwnEntry m
          \<and> snd (updateOrderFromShipmentStatus w oid \<lparr>current_status = Some s\<rparr> tr)
              = tr @ ShopifyPutStatus oid (Some (shopifyStatus m)) # es
          \<and> Log warn ''Unknown shipment status'' \<notin> set es"
    by blast
qed

theorem supported_statuses_are_mapped_witness:
  "js ''delivered'' \<in> set SUPPORTED_SHIPMENT_STATUSES
   \<and> (\<exists>m es. shipmentStatuses_get (js ''delivered'') = OwnEntry m
        \<and> snd (updateOrderFromShipmentStatus sample_world 1001
                 \<lparr>current_status = Some (js ''delivered'')\<rparr> [])
            = [] @ ShopifyPutStatus 1001 (Some (shopifyStatus m)) # es
        \<and> Log warn ''Unknown shipment status'' \<notin> set es)"
proof -
  have d: "js ''delivered'' \<in> set SUPPORTED_SHIPMENT_STATUSES"
    by (simp add: SUPPORTED_SHIPMENT_STATUSES_def js_def)
  from supported_statuses_are_mapped[of sample_world 1001 "[]"] d show ?thesis
    by blast
qed

text \<open>
  C1, as the claim words it, fails: \<open>pending\<close> and \<open>in_transit\<close> are status
  values of the shipment model, the table has no entry for them, and reconciliation
  given either of them takes the unknown-status branch: one warning, no update.
\<close>

theorem pending_status_unmapped_counterexample:
  "js ''pending'' \<in> set shipment_status_values
   \<and> shipmentStatuses_get (js ''pending'') = Undefined
   \<and> updateOrderFromShipmentStatus sample_world 1001 \<lparr>current_status = Some (js ''pending'')\<rparr> []
       = (Inr (), [Log warn ''Unknown shipment status''])
   \<and> js ''in_transit'' \<in> set shipment_status_values
   \<and> shipmentStatuses_get (js ''in_transit'') = Undefined
   \<and> updateOrderFromShipmentStatus sample_world 1001 \<lparr>current_status = Some (js ''in_transit'')\<rparr> []
       = (Inr (), [Log warn ''Unknown shipment status''])"
  by (simp add: shipment_status_values_def shipmentStatuses_get_def shipmentStatuses_def
      object_prototype_keys_def updateOrderFromShipmentStatus_def property_key_def js_def)

section \<open>What syncOrder leaves behind\<close>

lemma createConsignment_no_sync_log:
  "\<exists>es. snd (createConsignment w ord tr) = tr @ es \<and> filter is_sync_log_append es = []"
  by (auto simp: createConsignment_def Let_def split: sum.splits promise.splits option.splits)

lemma updateOrderNote_no_sync_log:
  "\<exists>es. snd (updateOrderNote w oid nt tr) = tr @ es \<and> filter is_sync_log_append es = []"
  by (auto simp: updateOrderNote_def Let_def split: option.splits)

lemma addOrderTag_no_sync_log:
  "\<exists>es. snd (addOrderTag w oid tag tr) = tr @ es \<and> filter is_sync_log_append es = []"
  by (auto simp: addOrderTag_def getOrder_def Let_def split: option.splits promise.splits)

text \<open>
  C4, on the code. The claim asks for one new sync log entry per \<open>syncOrder\<close>
  attempt. In every world, for every order and after every history, a call of
  \<open>syncOrder\<close> appends no line to the sync log, whether it short-circuits, throws
  or succeeds: \<open>SyncLog.logSync\<close> is never called.
\<close>

theorem syncOrder_writes_no_sync_log:
  "filter is_sync_log_append (added tr (snd (syncOrder w ord tr))) = []"
proof -
  have "\<exists>es. snd (syncOrder w ord tr) = tr @ es \<and> filter is_sync_log_append es = []"
  proof (cases "note_includes_marker (order_note ord)")
    case True
    then show ?thesis by (simp add: syncOrder_def)
  next
    case False
    obtain r tr1 where c: "createConsignment w ord tr = (r, tr1)"
      by (cases "createConsignment w ord tr")
    from createConsignment_no_sync_log[of w ord tr] c
    obtain es1 where e1: "tr1 = tr @ es1" "filter is_sync_log_append es1 = []" by auto
    show ?thesis
    proof (cases r)
      case (Inl e)
      with False c e1 show ?thesis by (simp add: syncOrder_def)
    next
      case (Inr cg)
      show ?thesis
      proof (cases "success cg")
        case nosucc: False
        with False c e1 Inr show ?thesis by (simp add: syncOrder_def)
      next
        case True
        obtain r2 tr2 where u: "updateOrderNote w (order_id ord)
            (sync_note (consignmentId cg) (now_iso w tr1)) tr1 = (r2, tr2)"
          by (cases "updateOrderNote w (order_id ord)
            (sync_note (consignmentId cg) (now_iso w tr1)) tr1")
        from updateOrderNote_no_sync_log[of w "order_id ord"
            "sync_note (consignmentId cg) (now_iso w tr1)" tr1] u
        obtain es2 where e2: "tr2 = tr1 @ es2" "filter is_sync_log_append es2 = []" by auto
        obtain r3 tr3 where t: "addOrderTag w (order_id ord) (js ''shipsy-synced'') tr2 = (r3, tr3)"
          by (cases "addOrderTag w (order_id ord) (js ''shipsy-synced'') tr2")
        from addOrderTag_no_sync_log[of w "order_id ord" "js ''shipsy-synced''" tr2] t
        obtain es3 where e3: "tr3 = tr2 @ es3" "filter is_sync_log_append es3 = []" by auto
        have "snd (syncOrder w ord tr) = tr2 @ [Log error ''Failed to sync order'']
            \<or> snd (syncOrder w ord tr) = tr3 @ [Log error ''Failed to sync order'']
            \<or> snd (syncOrder w ord tr) = tr3 @ [Log info ''Order synced successfully'']"
          using False c Inr True u t
          by (cases r2; cases r3) (simp_all add: syncOrder_def)
        with e1 e2 e3 show ?thesis by auto
      qed
    qed
  qed
  then show ?thesis by (auto simp: added_def)
qed

lemmas run_defs = syncOrder_def createConsignment_def transformOrderToConsignment_def
  response_consignment_id_def updateOrderNote_def addOrderTag_def getOrder_def
  note_includes_marker_def sync_note_def sample_world_def sample_order_def js_def SHIPSY_ID_def

text \<open>
  C3, on the code. The claim asks that a successful \<open>syncOrder\<close> keeps the text the
  note already had. For the order 1001 with the note \<open>Leave at door\<close>, the sync
  succeeds and the note it puts is the two sync-state lines alone, in which the old text
  does not occur; the tags, in contrast, are read first and kept.
\<close>

theorem syncOrder_replaces_note:
  "syncOrder sample_world (sample_order 1001 (Some (js ''Leave at door''))) []
     = (Inr (SyncSuccess 1001 (js ''123'')),
        [Log info ''Creating consignment in Shipsy'',
         ShipsyPostSoftdata \<lparr>customer_reference_number = 1001,
                              items = [\<lparr>title = js ''Book'', quantity = 2\<rparr>]\<rparr>,
         Log info ''Consignment created successfully'',
         ShopifyPutNote 1001 (sync_note (js ''123'') (js ''2024-05-01T10:00:00.000Z'')),
         ShopifyGetOrder 1001,
         ShopifyPutTags 1001 (js ''vip, gift, shipsy-synced''),
         Log info ''Order synced successfully''])
   \<and> \<not> includes_str (sync_note (js ''123'') (js ''2024-05-01T10:00:00.000Z'')) (js ''Leave at door'')"
  by (simp add: run_defs)

text \<open>
  C2, on the code. The claim asks that the guard of \<open>syncOrder\<close> and
  \<open>extractConsignmentId\<close> answer alike. On the note that \<open>syncOrder\<close> itself
  writes for the carrier identifier \<open>C1\<close>, the guard fires (already synced, in every
  world) and \<open>getSyncStats\<close> counts the order as synced, while
  \<open>extractConsignmentId\<close> returns null.
\<close>

theorem syncOrder_guard_differs_from_extractConsignmentId:
  "syncOrder w (sample_order 1001 (Some (sync_note (js ''C1'') (js ''2024-05-01T10:00:00.000Z'')))) tr
     = (Inr AlreadySynced, tr @ [Log info ''Order already synced''])
   \<and> extractConsignmentId (Some (sync_note (js ''C1'') (js ''2024-05-01T10:00:00.000Z''))) = None
   \<and> stats_synced (getSyncStats_tally
        [sample_order 1001 (Some (sync_note (js ''C1'') (js ''2024-05-01T10:00:00.000Z'')))]) = 1"
  by (simp add: syncOrder_def note_includes_marker_def getSyncStats_tally_def sample_order_def
      sync_note_def extractConsignmentId_def match_here_def is_space_def is_digit_def js_def
      SHIPSY_ID_def)

end
